theory Spec2Isabelle
  imports Complex_Main
begin

section \<open>D11 Safety HUD: risk engine, telemetry generator, proposals, audit log\<close>

text \<open>
  A shallow embedding of \<^verbatim>\<open>app.py\<close>. Python floats are modelled as \<^typ>\<open>real\<close>
  (no NaN), Python integers as \<^typ>\<open>int\<close>, the session object \<^verbatim>\<open>ss\<close> as a record that
  every operation takes and returns, and each reading of \<^verbatim>\<open>time.time()\<close> as an argument
  of the operation that reads it.

  Arithmetic on the reals is exact, except where the rounding of a float operation
  decides an integer or a test: the product \<^verbatim>\<open>base_ts * 1000\<close> that gives the seed, and
  the difference of two clock readings in the one-second gate of the simulation step.
  There the float result is \<open>fl x\<close>, with \<open>x\<close> the exact result and \<open>fl\<close> the rounding to a
  float, a parameter of the model.
\<close>

subsection \<open>Python built-ins used by the code\<close>

definition py_int :: "real \<Rightarrow> int" where
  \<comment> \<open>\<^verbatim>\<open>int(x)\<close> on a float: truncation towards zero.\<close>
  "py_int x = (if 0 \<le> x then \<lfloor>x\<rfloor> else \<lceil>x\<rceil>)"

definition py_round :: "real \<Rightarrow> int" where
  \<comment> \<open>\<^verbatim>\<open>round(x)\<close> with one argument: nearest integer, ties to the even one.\<close>
  "py_round x =
     (let f = \<lfloor>x\<rfloor>; d = x - of_int f
      in if d < 1 / 2 then f
         else if 1 / 2 < d then f + 1
         else if even f then f else f + 1)"

definition lastn :: "nat \<Rightarrow> 'a list \<Rightarrow> 'a list" where
  \<comment> \<open>The slice \<^verbatim>\<open>xs[-n:]\<close> for \<open>n > 0\<close>: the last \<open>n\<close> items, all of them when there are fewer.\<close>
  "lastn n xs = drop (length xs - n) xs"

subsection \<open>Risk and physics helpers\<close>

definition clamp :: "real \<Rightarrow> real \<Rightarrow> real \<Rightarrow> real" where
  "clamp v lo hi = max lo (min hi v)"

definition clamp_int :: "int \<Rightarrow> int \<Rightarrow> int \<Rightarrow> int" where
  \<comment> \<open>\<^verbatim>\<open>clamp\<close> called on an integer (the rounded gear).\<close>
  "clamp_int v lo hi = max lo (min hi v)"

definition compute_rollover_risk :: "real \<Rightarrow> real \<Rightarrow> real \<Rightarrow> real" where
  "compute_rollover_risk grade_pct roll_deg speed_kph =
     (let grade_factor = \<bar>grade_pct\<bar> / 25;
          roll_factor = \<bar>roll_deg\<bar> / 20;
          speed_factor = speed_kph / 12;
          base = 55 * roll_factor + 30 * grade_factor + 25 * speed_factor
      in clamp base 0 100)"

definition compute_slip_risk :: "real \<Rightarrow> real \<Rightarrow> real \<Rightarrow> real \<Rightarrow> real" where
  "compute_slip_risk grade_pct moisture firmness speed_kph =
     (let downhill_factor = clamp (grade_pct / 20) (- 12 / 10) (12 / 10);
          downhill_factor = max 0 downhill_factor;
          moisture_factor = moisture;
          softness_factor = 1 - firmness;
          speed_factor = speed_kph / 10;
          base = 40 * downhill_factor + 35 * moisture_factor + 35 * softness_factor
                 + 20 * speed_factor
      in clamp base 0 100)"

definition compute_gnss_confidence :: "real \<Rightarrow> real \<Rightarrow> real \<Rightarrow> real" where
  "compute_gnss_confidence hdop jitter_m visibility =
     (let hdop_term = clamp ((35 / 10 - hdop) / (35 / 10)) 0 1;
          jitter_term = clamp ((3 - jitter_m) / 3) 0 1;
          vis_term = clamp visibility 0 1;
          conf = 45 / 100 * hdop_term + 35 / 100 * jitter_term + 20 / 100 * vis_term
      in clamp (conf * 100) 0 100)"

definition compute_obstacle_risk :: "real \<Rightarrow> real \<Rightarrow> real" where
  "compute_obstacle_risk distance_m speed_kph =
     (if distance_m \<ge> 80 \<or> distance_m = 999 then 0
      else
        let speed_mps = speed_kph / (36 / 10);
            speed_mps = (if speed_mps < 1 / 10 then 1 / 10 else speed_mps);
            ttc = distance_m / speed_mps;
            base = (if ttc > 40 then 10
                    else if ttc > 20 then 35
                    else if ttc > 10 then 60
                    else 85)
        in clamp base 0 100)"

definition compute_overall_risk :: "real \<Rightarrow> real \<Rightarrow> real \<Rightarrow> real \<Rightarrow> real" where
  "compute_overall_risk rollover slip obstacle gnss_conf =
     (let gnss_penalty = (100 - gnss_conf) * (25 / 100);
          base = 38 / 100 * rollover + 34 / 100 * slip + 28 / 100 * obstacle + gnss_penalty
      in clamp base 0 100)"

datatype risk_state = STABLE | ELEVATED | HIGH | CRITICAL

definition classify_state :: "real \<Rightarrow> risk_state" where
  "classify_state overall_risk =
     (if overall_risk < 25 then STABLE
      else if overall_risk < 50 then ELEVATED
      else if overall_risk < 75 then HIGH
      else CRITICAL)"

subsection \<open>Data structures\<close>

record TelemetryRow =
  tick :: int
  ts :: real
  speed_kph :: real
  gear :: int
  engine_rpm :: int
  grade_pct :: real
  roll_deg :: real
  pitch_deg :: real
  blade_load_pct :: real
  fuel_pct :: real
  ground_firmness :: real
  moisture_index :: real
  visibility :: real
  gnss_hdop :: real
  gnss_jitter_m :: real
  obstacle_distance_m :: real
  obstacle_bearing_deg :: real
  shift_hours :: real
  micro_corrections_per_min :: real
  rollover_risk :: real
  slip_risk :: real
  obstacle_risk :: real
  gnss_confidence :: real
  overall_risk :: real
  state :: risk_state

text \<open>
  The values a \<^verbatim>\<open>Dict[str, Any]\<close> holds in this program, and the four strings a
  proposal's status takes.
\<close>

datatype py_value = PyInt int | PyFloat real | PyStr string

datatype proposal_status = PENDING | APPROVED | REJECTED | DEFERRED

record Proposal =
  p_id :: int
  created_ts :: real
  title :: string
  rationale :: string
  status :: proposal_status
  snapshot :: "(string \<times> py_value) list"

datatype audit_kind = control | alert | proposal | decision

record AuditEntry =
  a_ts :: real
  kind :: audit_kind
  summary :: string
  meta :: "(string \<times> py_value) list"

text \<open>The session state \<^verbatim>\<open>ss\<close>; \<^verbatim>\<open>init_state\<close> reads the clock for \<^verbatim>\<open>last_update\<close>.\<close>

record session =
  ss_tick :: int
  ss_running :: bool
  ss_last_update :: real
  ss_history :: "TelemetryRow list"
  ss_proposals :: "Proposal list"
  ss_audit :: "AuditEntry list"
  ss_next_proposal_id :: int

definition init_state :: "real \<Rightarrow> session" where
  "init_state now =
     \<lparr>ss_tick = 0, ss_running = False, ss_last_update = now, ss_history = [],
      ss_proposals = [], ss_audit = [], ss_next_proposal_id = 1\<rparr>"

subsection \<open>Audit log\<close>

definition log_audit ::
  "real \<Rightarrow> audit_kind \<Rightarrow> string \<Rightarrow> (string \<times> py_value) list option \<Rightarrow> session \<Rightarrow> session" where
  \<comment> \<open>\<^verbatim>\<open>meta or {}\<close>: a missing or empty mapping is stored as the empty one.\<close>
  "log_audit now k sm m s =
     (let entry = \<lparr>a_ts = now, kind = k, summary = sm,
                    meta = (case m of None \<Rightarrow> [] | Some d \<Rightarrow> d)\<rparr>;
          appended = ss_audit s @ [entry]
      in s\<lparr>ss_audit := lastn 150 appended\<rparr>)"

text \<open>A run of calls of \<^verbatim>\<open>log_audit\<close>, one per item, in order.\<close>

fun log_audit_all ::
  "(real \<times> audit_kind \<times> string \<times> (string \<times> py_value) list option) list \<Rightarrow> session \<Rightarrow> session" where
  "log_audit_all [] s = s"
| "log_audit_all ((now, k, sm, m) # rest) s = log_audit_all rest (log_audit now k sm m s)"

definition entry_of ::
  "real \<times> audit_kind \<times> string \<times> (string \<times> py_value) list option \<Rightarrow> AuditEntry" where
  "entry_of c =
     (case c of (now, k, sm, m) \<Rightarrow>
        \<lparr>a_ts = now, kind = k, summary = sm, meta = (case m of None \<Rightarrow> [] | Some d \<Rightarrow> d)\<rparr>)"

subsection \<open>Synthetic telemetry generator\<close>

text \<open>
  The numpy generator is a parameter: a state of some type \<open>'g\<close>, built from a seed by
  \<^verbatim>\<open>default_rng\<close>, and the three draws the code makes, each returning the value drawn and
  the next state.
\<close>

record 'g np_rng =
  default_rng :: "int \<Rightarrow> 'g"
  rng_normal :: "real \<Rightarrow> real \<Rightarrow> 'g \<Rightarrow> real \<times> 'g"
  rng_random :: "'g \<Rightarrow> real \<times> 'g"
  rng_uniform :: "real \<Rightarrow> real \<Rightarrow> 'g \<Rightarrow> real \<times> 'g"

text \<open>
  The seventeen local variables that both branches of \<^verbatim>\<open>if prev is None\<close> bind: fixed
  values on a cold start, the previous row's values otherwise. The listing carries no
  indentation, so the end of the \<^verbatim>\<open>else\<close> branch is not marked; the blocks that come
  after the loads are taken here to follow the \<^verbatim>\<open>if\<close> and to run in both cases.
\<close>

record tick_vars =
  v_speed_kph :: real
  v_gear :: int
  v_engine_rpm :: int
  v_grade_pct :: real
  v_roll_deg :: real
  v_pitch_deg :: real
  v_blade_load_pct :: real
  v_fuel_pct :: real
  v_ground_firmness :: real
  v_moisture_index :: real
  v_visibility :: real
  v_gnss_hdop :: real
  v_gnss_jitter_m :: real
  v_obstacle_distance_m :: real
  v_obstacle_bearing_deg :: real
  v_shift_hours :: real
  v_micro_corr :: real

definition cold_start :: tick_vars where
  "cold_start =
     \<lparr>v_speed_kph = 0, v_gear = 1, v_engine_rpm = 800, v_grade_pct = 0, v_roll_deg = 0,
      v_pitch_deg = 0, v_blade_load_pct = 0, v_fuel_pct = 90, v_ground_firmness = 7 / 10,
      v_moisture_index = 3 / 10, v_visibility = 9 / 10, v_gnss_hdop = 8 / 10,
      v_gnss_jitter_m = 3 / 10, v_obstacle_distance_m = 999, v_obstacle_bearing_deg = 0,
      v_shift_hours = 2, v_micro_corr = 22\<rparr>"

definition load_prev :: "TelemetryRow \<Rightarrow> tick_vars" where
  "load_prev prev =
     \<lparr>v_speed_kph = speed_kph prev, v_gear = gear prev, v_engine_rpm = engine_rpm prev,
      v_grade_pct = grade_pct prev, v_roll_deg = roll_deg prev, v_pitch_deg = pitch_deg prev,
      v_blade_load_pct = blade_load_pct prev, v_fuel_pct = fuel_pct prev,
      v_ground_firmness = ground_firmness prev, v_moisture_index = moisture_index prev,
      v_visibility = visibility prev, v_gnss_hdop = gnss_hdop prev,
      v_gnss_jitter_m = gnss_jitter_m prev,
      v_obstacle_distance_m = obstacle_distance_m prev,
      v_obstacle_bearing_deg = obstacle_bearing_deg prev, v_shift_hours = shift_hours prev,
      v_micro_corr = micro_corrections_per_min prev\<rparr>"

definition seed_of :: "(real \<Rightarrow> real) \<Rightarrow> real \<Rightarrow> int" where
  \<comment> \<open>\<^verbatim>\<open>int(base_ts * 1000) % (2**32 - 1)\<close>, the product being a float product.\<close>
  "seed_of fl base_ts = py_int (fl (base_ts * 1000)) mod (2 ^ 32 - 1)"

text \<open>
  The body of \<^verbatim>\<open>generate_tick\<close> after the \<^verbatim>\<open>if\<close> is a sequence of blocks, each under
  its own comment in the source. Each block is one definition here: it takes the local
  variables and the generator state and returns them updated.
\<close>

definition mode_of :: "int \<Rightarrow> int" where
  \<comment> \<open>\<^verbatim>\<open>mode = (tick // 40) % 4\<close>: crawl, push, reposition, reverse.\<close>
  "mode_of tk = (tk div 40) mod 4"

definition speed_gear_rpm :: "'g np_rng \<Rightarrow> int \<Rightarrow> tick_vars \<Rightarrow> 'g \<Rightarrow> tick_vars \<times> 'g" where
  \<comment> \<open>Speed and gear pattern; gear and RPM roughly track speed.\<close>
  "speed_gear_rpm R tk v rng =
     (let mode = mode_of tk;
          target_speed =
            (if mode = 0 then 2 else if mode = 1 then 5 else if mode = 2 then 8 else 3);
          (d, rng) = rng_normal R ((target_speed - v_speed_kph v) * (25 / 100)) (5 / 10) rng;
          speed_kph = v_speed_kph v + d;
          speed_kph = clamp speed_kph 0 12;
          gear = clamp_int (py_round (1 + speed_kph / 3)) 1 4;
          (d, rng) = rng_normal R 0 80 rng;
          engine_rpm = py_int (clamp (800 + speed_kph * 120 + d) 800 2100)
      in (v\<lparr>v_speed_kph := speed_kph, v_gear := gear, v_engine_rpm := engine_rpm\<rparr>, rng))"

definition terrain_grade :: "'g np_rng \<Rightarrow> int \<Rightarrow> tick_vars \<Rightarrow> 'g \<Rightarrow> tick_vars \<times> 'g" where
  \<comment> \<open>Terrain grade evolves slowly, with a larger step every 50 ticks.\<close>
  "terrain_grade R tk v rng =
     (let (grade_pct, rng) =
            (if tk mod 50 = 0
             then (let (d, rng) = rng_normal R 0 4 rng in (v_grade_pct v + d, rng))
             else (v_grade_pct v, rng));
          (d, rng) = rng_normal R 0 (5 / 10) rng;
          grade_pct = grade_pct + d;
          grade_pct = clamp grade_pct (- 22) 22
      in (v\<lparr>v_grade_pct := grade_pct\<rparr>, rng))"

definition roll_pitch :: "'g np_rng \<Rightarrow> tick_vars \<Rightarrow> 'g \<Rightarrow> tick_vars \<times> 'g" where
  \<comment> \<open>Roll/pitch wobble.\<close>
  "roll_pitch R v rng =
     (let (d, rng) = rng_normal R (v_grade_pct v * (3 / 100)) 1 rng;
          roll_deg = v_roll_deg v + d;
          (d, rng) = rng_normal R (v_grade_pct v * (4 / 100)) (8 / 10) rng;
          pitch_deg = v_pitch_deg v + d;
          roll_deg = clamp roll_deg (- 18) 18;
          pitch_deg = clamp pitch_deg (- 15) 15
      in (v\<lparr>v_roll_deg := roll_deg, v_pitch_deg := pitch_deg\<rparr>, rng))"

definition blade_load :: "'g np_rng \<Rightarrow> int \<Rightarrow> tick_vars \<Rightarrow> 'g \<Rightarrow> tick_vars \<times> 'g" where
  \<comment> \<open>Blade load, heavier during the crawl and push modes.\<close>
  "blade_load R tk v rng =
     (let mode = mode_of tk;
          (target_load, rng) =
            (if mode = 0 \<or> mode = 1
             then (let (u, rng) = rng_random R rng in (70 + 20 * u, rng))
             else (let (u, rng) = rng_random R rng in (20 * u, rng)));
          (d, rng) = rng_normal R ((target_load - v_blade_load_pct v) * (3 / 10)) 4 rng;
          blade_load_pct = v_blade_load_pct v + d;
          blade_load_pct = clamp blade_load_pct 0 115
      in (v\<lparr>v_blade_load_pct := blade_load_pct\<rparr>, rng))"

definition fuel_burn :: "tick_vars \<Rightarrow> tick_vars" where
  "fuel_burn v =
     (let fuel_pct = v_fuel_pct v - (3 / 100 + v_speed_kph v * (1 / 100));
          fuel_pct = clamp fuel_pct 5 100
      in v\<lparr>v_fuel_pct := fuel_pct\<rparr>)"

definition ground_moisture :: "'g np_rng \<Rightarrow> int \<Rightarrow> tick_vars \<Rightarrow> 'g \<Rightarrow> tick_vars \<times> 'g" where
  \<comment> \<open>Ground and moisture drift slowly, with a rain step every 120 ticks.\<close>
  "ground_moisture R tk v rng =
     (let (moisture_index, rng) =
            (if tk mod 120 = 0
             then (let (d, rng) = rng_normal R (15 / 100) (5 / 100) rng
                   in (v_moisture_index v + d, rng))
             else (v_moisture_index v, rng));
          (d, rng) = rng_normal R 0 (1 / 100) rng;
          moisture_index = moisture_index + d;
          moisture_index = clamp moisture_index (1 / 10) (95 / 100);
          (d, rng) = rng_normal R (- (15 / 1000) * moisture_index) (1 / 100) rng;
          ground_firmness = v_ground_firmness v + d;
          ground_firmness = clamp ground_firmness (25 / 100) (95 / 100)
      in (v\<lparr>v_moisture_index := moisture_index, v_ground_firmness := ground_firmness\<rparr>, rng))"

definition visibility_drift :: "'g np_rng \<Rightarrow> tick_vars \<Rightarrow> 'g \<Rightarrow> tick_vars \<times> 'g" where
  \<comment> \<open>Visibility (dust, lighting).\<close>
  "visibility_drift R v rng =
     (let (d, rng) = rng_normal R (- (4 / 1000)) (1 / 100) rng;
          visibility = v_visibility v + d;
          visibility = clamp visibility (3 / 10) 1
      in (v\<lparr>v_visibility := visibility\<rparr>, rng))"

definition gnss_quality :: "'g np_rng \<Rightarrow> tick_vars \<Rightarrow> 'g \<Rightarrow> tick_vars \<times> 'g" where
  "gnss_quality R v rng =
     (let (d, rng) = rng_normal R (2 / 100 * (1 - v_visibility v)) (4 / 100) rng;
          gnss_hdop = v_gnss_hdop v + d;
          gnss_hdop = clamp gnss_hdop (5 / 10) (35 / 10);
          (d, rng) = rng_normal R (5 / 100 * (1 - v_visibility v)) (6 / 100) rng;
          gnss_jitter_m = v_gnss_jitter_m v + d;
          gnss_jitter_m = clamp gnss_jitter_m (15 / 100) 3
      in (v\<lparr>v_gnss_hdop := gnss_hdop, v_gnss_jitter_m := gnss_jitter_m\<rparr>, rng))"

definition obstacles :: "'g np_rng \<Rightarrow> tick_vars \<Rightarrow> 'g \<Rightarrow> tick_vars \<times> 'g" where
  \<comment> \<open>Now and then an obstacle comes near; otherwise the distance relaxes away.\<close>
  "obstacles R v rng =
     (let (u, rng) = rng_random R rng
      in if u < 6 / 100
         then (let (a, rng) = rng_uniform R 6 35 rng;
                   (b, rng) = rng_uniform R (- 120) 120 rng
               in (v\<lparr>v_obstacle_distance_m := a, v_obstacle_bearing_deg := b\<rparr>, rng))
         else (let obstacle_distance_m = v_obstacle_distance_m v + 3;
                   obstacle_distance_m =
                     (if obstacle_distance_m > 80 then 999 else obstacle_distance_m)
               in (v\<lparr>v_obstacle_distance_m := obstacle_distance_m\<rparr>, rng)))"

definition operator_behaviour :: "'g np_rng \<Rightarrow> tick_vars \<Rightarrow> 'g \<Rightarrow> tick_vars \<times> 'g" where
  "operator_behaviour R v rng =
     (let (d, rng) =
            rng_normal R (1 / 10 * (\<bar>v_grade_pct v\<bar> + \<bar>v_roll_deg v\<bar>) / 20) 1 rng;
          micro_corr = v_micro_corr v + d;
          micro_corr = clamp micro_corr 8 60
      in (v\<lparr>v_micro_corr := micro_corr\<rparr>, rng))"

definition evolve :: "'g np_rng \<Rightarrow> int \<Rightarrow> tick_vars \<Rightarrow> 'g \<Rightarrow> tick_vars \<times> 'g" where
  \<comment> \<open>The blocks in the order of the source, from the shift clock to the operator.\<close>
  "evolve R tk v rng =
     (let v = v\<lparr>v_shift_hours := v_shift_hours v + 1 / 60\<rparr>;
          (v, rng) = speed_gear_rpm R tk v rng;
          (v, rng) = terrain_grade R tk v rng;
          (v, rng) = roll_pitch R v rng;
          (v, rng) = blade_load R tk v rng;
          v = fuel_burn v;
          (v, rng) = ground_moisture R tk v rng;
          (v, rng) = visibility_drift R v rng;
          (v, rng) = gnss_quality R v rng;
          (v, rng) = obstacles R v rng;
          (v, rng) = operator_behaviour R v rng
      in (v, rng))"

definition compute_risks :: "int \<Rightarrow> real \<Rightarrow> tick_vars \<Rightarrow> TelemetryRow" where
  \<comment> \<open>The risk scores of the new values, and the row that is returned.\<close>
  "compute_risks tk base_ts v =
     (let rollover_risk =
            compute_rollover_risk (v_grade_pct v) (v_roll_deg v) (v_speed_kph v);
          slip_risk =
            compute_slip_risk (v_grade_pct v) (v_moisture_index v) (v_ground_firmness v)
              (v_speed_kph v);
          obstacle_risk = compute_obstacle_risk (v_obstacle_distance_m v) (v_speed_kph v);
          gnss_conf =
            compute_gnss_confidence (v_gnss_hdop v) (v_gnss_jitter_m v) (v_visibility v);
          overall_risk = compute_overall_risk rollover_risk slip_risk obstacle_risk gnss_conf;
          state = classify_state overall_risk
      in \<lparr>tick = tk, ts = base_ts, speed_kph = v_speed_kph v, gear = v_gear v,
          engine_rpm = v_engine_rpm v, grade_pct = v_grade_pct v, roll_deg = v_roll_deg v,
          pitch_deg = v_pitch_deg v, blade_load_pct = v_blade_load_pct v,
          fuel_pct = v_fuel_pct v, ground_firmness = v_ground_firmness v,
          moisture_index = v_moisture_index v, visibility = v_visibility v,
          gnss_hdop = v_gnss_hdop v, gnss_jitter_m = v_gnss_jitter_m v,
          obstacle_distance_m = v_obstacle_distance_m v,
          obstacle_bearing_deg = v_obstacle_bearing_deg v, shift_hours = v_shift_hours v,
          micro_corrections_per_min = v_micro_corr v, rollover_risk = rollover_risk,
          slip_risk = slip_risk, obstacle_risk = obstacle_risk, gnss_confidence = gnss_conf,
          overall_risk = overall_risk, state = state\<rparr>)"

text \<open>
  \<^verbatim>\<open>generate_tick(prev)\<close> reads the session's tick counter and the clock (\<open>base_ts\<close>), and
  seeds a fresh generator from the clock on every call.
\<close>

definition generate_tick ::
  "'g np_rng \<Rightarrow> (real \<Rightarrow> real) \<Rightarrow> real \<Rightarrow> session \<Rightarrow> TelemetryRow option \<Rightarrow> TelemetryRow" where
  "generate_tick R fl base_ts s prev =
     (let tick = ss_tick s + 1;
          rng = default_rng R (seed_of fl base_ts);
          v = (case prev of None \<Rightarrow> cold_start | Some p \<Rightarrow> load_prev p);
          (v, rng) = evolve R tick v rng
      in compute_risks tick base_ts v)"

text \<open>The documented range of every bounded field of a row.\<close>

definition row_in_ranges :: "TelemetryRow \<Rightarrow> bool" where
  "row_in_ranges r =
     (0 \<le> rollover_risk r \<and> rollover_risk r \<le> 100
      \<and> 0 \<le> slip_risk r \<and> slip_risk r \<le> 100
      \<and> 0 \<le> obstacle_risk r \<and> obstacle_risk r \<le> 100
      \<and> 0 \<le> gnss_confidence r \<and> gnss_confidence r \<le> 100
      \<and> 0 \<le> overall_risk r \<and> overall_risk r \<le> 100
      \<and> 0 \<le> speed_kph r \<and> speed_kph r \<le> 12
      \<and> 1 \<le> gear r \<and> gear r \<le> 4
      \<and> 800 \<le> engine_rpm r \<and> engine_rpm r \<le> 2100
      \<and> - 22 \<le> grade_pct r \<and> grade_pct r \<le> 22
      \<and> - 18 \<le> roll_deg r \<and> roll_deg r \<le> 18
      \<and> - 15 \<le> pitch_deg r \<and> pitch_deg r \<le> 15
      \<and> 0 \<le> blade_load_pct r \<and> blade_load_pct r \<le> 115
      \<and> 5 \<le> fuel_pct r \<and> fuel_pct r \<le> 100
      \<and> 1 / 10 \<le> moisture_index r \<and> moisture_index r \<le> 95 / 100
      \<and> 25 / 100 \<le> ground_firmness r \<and> ground_firmness r \<le> 95 / 100
      \<and> 3 / 10 \<le> visibility r \<and> visibility r \<le> 1
      \<and> 5 / 10 \<le> gnss_hdop r \<and> gnss_hdop r \<le> 35 / 10
      \<and> 15 / 100 \<le> gnss_jitter_m r \<and> gnss_jitter_m r \<le> 3
      \<and> 8 \<le> micro_corrections_per_min r \<and> micro_corrections_per_min r \<le> 60
      \<and> state r = classify_state (overall_risk r))"

definition obstacle_ok :: "real \<Rightarrow> bool" where
  \<comment> \<open>A real obstacle distance, or the sentinel.\<close>
  "obstacle_ok d = ((6 \<le> d \<and> d \<le> 80) \<or> d = 999)"

definition uniform_in_range :: "'g np_rng \<Rightarrow> bool" where
  \<comment> \<open>What numpy documents for \<^verbatim>\<open>uniform(low, high)\<close>: the draw lies between the two.\<close>
  "uniform_in_range R =
     (\<forall>lo hi g. lo \<le> hi \<longrightarrow>
        lo \<le> fst (rng_uniform R lo hi g) \<and> fst (rng_uniform R lo hi g) \<le> hi)"


subsection \<open>Text formatting\<close>

fun str_nat :: "nat \<Rightarrow> string" where
  "str_nat n =
     (if n < 10 then [char_of (48 + n)]
      else str_nat (n div 10) @ [char_of (48 + n mod 10)])"

definition str_int :: "int \<Rightarrow> string" where
  \<comment> \<open>\<^verbatim>\<open>str(i)\<close> for an integer, as an f-string prints it.\<close>
  "str_int i = (if i < 0 then CHR ''-'' # str_nat (nat (- i)) else str_nat (nat i))"

definition status_str :: "proposal_status \<Rightarrow> string" where
  "status_str st =
     (case st of PENDING \<Rightarrow> ''PENDING'' | APPROVED \<Rightarrow> ''APPROVED''
      | REJECTED \<Rightarrow> ''REJECTED'' | DEFERRED \<Rightarrow> ''DEFERRED'')"

text \<open>The non-ASCII characters of the messages, as their UTF-8 bytes.\<close>

definition em_dash :: string where "em_dash = [CHR 0xE2, CHR 0x80, CHR 0x94]"
definition right_arrow :: string where "right_arrow = [CHR 0xE2, CHR 0x86, CHR 0x92]"
definition degree_sign :: string where "degree_sign = [CHR 0xC2, CHR 0xB0]"
definition middle_dot :: string where "middle_dot = [CHR 0xC2, CHR 0xB7]"

fun join :: "string \<Rightarrow> string list \<Rightarrow> string" where
  "join sep [] = []"
| "join sep [b] = b"
| "join sep (b # bs) = b @ sep @ join sep bs"

subsection \<open>Proposal engine\<close>

text \<open>
  \<open>fmt d x\<close> stands for Python's \<^verbatim>\<open>f"{x:.df}"\<close>, the decimal rendering of a float with
  \<open>d\<close> digits after the point; it is a parameter. The clock is read twice, for the
  proposal's \<^verbatim>\<open>created_ts\<close> and inside \<^verbatim>\<open>log_audit\<close>.
\<close>

definition triggers_of :: "TelemetryRow \<Rightarrow> string list" where
  \<comment> \<open>The list \<^verbatim>\<open>triggers\<close> that \<^verbatim>\<open>maybe_generate_proposal\<close> builds, one append per test.\<close>
  "triggers_of latest =
     (if overall_risk latest > 65 then [''high_overall_risk''] else [])
     @ (if rollover_risk latest > 70 then [''rollover_exposure''] else [])
     @ (if slip_risk latest > 70 then [''traction_margin_low''] else [])
     @ (if obstacle_risk latest > 60 then [''obstacle_close''] else [])
     @ (if gnss_confidence latest < 55 then [''low_gnss_conf''] else [])"

definition maybe_generate_proposal ::
  "(nat \<Rightarrow> real \<Rightarrow> string) \<Rightarrow> real \<Rightarrow> real \<Rightarrow> TelemetryRow \<Rightarrow> session \<Rightarrow> session" where
  "maybe_generate_proposal fmt t_created t_logged latest s =
     (let open_pending = filter (\<lambda>p. status p = PENDING) (ss_proposals s)
      in if length open_pending \<ge> 4 then s
      else
        let triggers = triggers_of latest
        in if triggers = [] then s
        else
          let ttl =
                (if ''obstacle_close'' \<in> set triggers
                   then ''Pause travel '' @ em_dash @ '' obstacle within unsafe margin''
                 else if ''rollover_exposure'' \<in> set triggers
                   then ''Reduce cross-slope exposure and slow to crawl''
                 else if ''traction_margin_low'' \<in> set triggers
                   then ''Back out, re-cut access path, and reassess ground''
                 else if ''low_gnss_conf'' \<in> set triggers
                   then ''Switch to local references '' @ em_dash @ '' GNSS degraded''
                 else ''Hold profile and reduce speed until risk stabilizes'');
              bits =
                (if ''high_overall_risk'' \<in> set triggers
                   then [''overall risk '' @ fmt 1 (overall_risk latest) @ ''% > safe band'']
                 else [])
                @ (if ''rollover_exposure'' \<in> set triggers
                   then [''roll angle '' @ fmt 1 (roll_deg latest) @ degree_sign
                         @ '' on grade '' @ fmt 1 (grade_pct latest) @ ''%'']
                   else [])
                @ (if ''traction_margin_low'' \<in> set triggers
                   then [''slip risk elevated (moisture '' @ fmt 2 (moisture_index latest)
                         @ '', firmness '' @ fmt 2 (ground_firmness latest) @ '')'']
                   else [])
                @ (if ''obstacle_close'' \<in> set triggers \<and> obstacle_distance_m latest \<noteq> 999
                   then [''obstacle at '' @ fmt 1 (obstacle_distance_m latest)
                         @ '' m, bearing '' @ fmt 0 (obstacle_bearing_deg latest) @ degree_sign]
                   else [])
                @ (if ''low_gnss_conf'' \<in> set triggers
                   then [''GNSS confidence '' @ fmt 0 (gnss_confidence latest) @ ''%'']
                   else []);
              rat = join ('' '' @ middle_dot @ '' '') bits;
              prop =
                \<lparr>p_id = ss_next_proposal_id s, created_ts = t_created, title = ttl,
                 rationale = rat, status = PENDING,
                 snapshot =
                   [(''tick'', PyInt (tick latest)),
                    (''overall_risk'', PyFloat (overall_risk latest)),
                    (''rollover_risk'', PyFloat (rollover_risk latest)),
                    (''slip_risk'', PyFloat (slip_risk latest)),
                    (''obstacle_risk'', PyFloat (obstacle_risk latest)),
                    (''gnss_confidence'', PyFloat (gnss_confidence latest)),
                    (''grade_pct'', PyFloat (grade_pct latest)),
                    (''roll_deg'', PyFloat (roll_deg latest)),
                    (''speed_kph'', PyFloat (speed_kph latest)),
                    (''obstacle_distance_m'', PyFloat (obstacle_distance_m latest))]\<rparr>;
              s1 = s\<lparr>ss_proposals := ss_proposals s @ [prop]\<rparr>;
              s2 = s1\<lparr>ss_next_proposal_id := ss_next_proposal_id s1 + 1\<rparr>
          in log_audit t_logged proposal
               (''Proposal #'' @ str_int (p_id prop) @ '': '' @ title prop)
               (Some [(''rationale'', PyStr rat)]) s2)"

text \<open>
  \<^verbatim>\<open>update_proposal_status(prop, new_status)\<close> receives the proposal object itself, one of
  the items of \<^verbatim>\<open>ss.proposals\<close>; the model names it by its position \<open>i\<close> in that list
  (each item is a distinct object, built by its own call of the constructor). The caller
  always passes an item of the list; outside the list there is no object to update and
  the model leaves the session as it is.
\<close>

definition update_proposal_status :: "real \<Rightarrow> nat \<Rightarrow> proposal_status \<Rightarrow> session \<Rightarrow> session" where
  "update_proposal_status now i new_status s =
     (if i < length (ss_proposals s) then
        let prop = ss_proposals s ! i;
            old = status prop;
            prop' = prop\<lparr>status := new_status\<rparr>;
            s1 = s\<lparr>ss_proposals := (ss_proposals s)[i := prop']\<rparr>
        in log_audit now decision
             (status_str new_status @ '' '' @ right_arrow @ '' Proposal #'' @ str_int (p_id prop'))
             (Some [(''title'', PyStr (title prop')), (''prev'', PyStr (status_str old))]) s1
      else s)"

text \<open>
  The caller of \<^verbatim>\<open>update_proposal_status\<close>: the selected proposal is the first one whose
  id is \<open>pid\<close> (\<^verbatim>\<open>next(p for p in ss.proposals if p.id == pid)\<close>, which raises
  \<^verbatim>\<open>StopIteration\<close> when there is none), and each of the three buttons is disabled
  unless that proposal is PENDING; a disabled button is never pressed.
\<close>

datatype py_error = StopIteration

fun find_index_id :: "int \<Rightarrow> Proposal list \<Rightarrow> nat option" where
  "find_index_id pid [] = None"
| "find_index_id pid (p # ps) =
     (if p_id p = pid then Some 0 else map_option Suc (find_index_id pid ps))"

definition press_decision ::
  "real \<Rightarrow> int \<Rightarrow> proposal_status \<Rightarrow> session \<Rightarrow> py_error + (bool \<times> session)" where
  \<comment> \<open>The boolean tells whether the button was enabled, so that the press took effect.\<close>
  "press_decision now pid new_status s =
     (case find_index_id pid (ss_proposals s) of
        None \<Rightarrow> Inl StopIteration
      | Some i \<Rightarrow>
          if status (ss_proposals s ! i) \<noteq> PENDING then Inr (False, s)
          else Inr (True, update_proposal_status now i new_status s))"

definition pending_count :: "session \<Rightarrow> nat" where
  "pending_count s = length (filter (\<lambda>p. status p = PENDING) (ss_proposals s))"

subsection \<open>Simulation step and controls\<close>

text \<open>
  The clock readings of one pass through the simulation step, in the order in which
  the code makes them: the gate, \<^verbatim>\<open>generate_tick\<close>, the write of \<^verbatim>\<open>ss.last_update\<close>, the
  alert entry, and the two of \<^verbatim>\<open>maybe_generate_proposal\<close>.
\<close>

record step_clock =
  t_gate :: real
  t_base :: real
  t_update :: real
  t_alert :: real
  t_created :: real
  t_logged :: real

definition DT_SECONDS :: real where
  "DT_SECONDS = 1"

definition state_str :: "risk_state \<Rightarrow> string" where
  "state_str st =
     (case st of STABLE \<Rightarrow> ''STABLE'' | ELEVATED \<Rightarrow> ''ELEVATED''
      | HIGH \<Rightarrow> ''HIGH'' | CRITICAL \<Rightarrow> ''CRITICAL'')"

definition gate_open :: "(real \<Rightarrow> real) \<Rightarrow> step_clock \<Rightarrow> session \<Rightarrow> bool" where
  \<comment> \<open>\<^verbatim>\<open>ss.running and (time.time() - ss.last_update) >= DT_SECONDS\<close>\<close>
  "gate_open fl c s = (ss_running s \<and> fl (t_gate c - ss_last_update s) \<ge> DT_SECONDS)"

definition simulation_step ::
  "'g np_rng \<Rightarrow> (real \<Rightarrow> real) \<Rightarrow> (nat \<Rightarrow> real \<Rightarrow> string) \<Rightarrow> step_clock \<Rightarrow> session \<Rightarrow> session" where
  "simulation_step R fl fmt c s =
     (if gate_open fl c s then
        let prev_row = (if ss_history s \<noteq> [] then Some (last (ss_history s)) else None);
            latest_row = generate_tick R fl (t_base c) s prev_row;
            s = s\<lparr>ss_tick := tick latest_row\<rparr>;
            s = s\<lparr>ss_history := ss_history s @ [latest_row]\<rparr>;
            s = s\<lparr>ss_history := lastn 600 (ss_history s)\<rparr>;
            s = s\<lparr>ss_last_update := t_update c\<rparr>;
            s = (if state latest_row = HIGH \<or> state latest_row = CRITICAL
                 then log_audit (t_alert c) alert
                        (state_str (state latest_row) @ '' risk at tick ''
                         @ str_int (tick latest_row))
                        (Some [(''overall_risk'', PyFloat (overall_risk latest_row))]) s
                 else s)
        in maybe_generate_proposal fmt (t_created c) (t_logged c) latest_row s
      else s)"

fun drive ::
  "'g np_rng \<Rightarrow> (real \<Rightarrow> real) \<Rightarrow> (nat \<Rightarrow> real \<Rightarrow> string) \<Rightarrow> step_clock list \<Rightarrow> session \<Rightarrow> session" where
  \<comment> \<open>One pass through the simulation step per item, in order.\<close>
  "drive R fl fmt [] s = s"
| "drive R fl fmt (c # rest) s = drive R fl fmt rest (simulation_step R fl fmt c s)"


definition start_simulation :: "real \<Rightarrow> real \<Rightarrow> session \<Rightarrow> session" where
  \<comment> \<open>The Start button; the clock is read for \<^verbatim>\<open>last_update\<close> and inside \<^verbatim>\<open>log_audit\<close>.\<close>
  "start_simulation t_upd t_log s =
     (let s = s\<lparr>ss_running := True\<rparr>;
          s = s\<lparr>ss_last_update := t_upd\<rparr>
      in log_audit t_log control ''Simulation started'' (Some []) s)"

subsection \<open>Example sessions\<close>

definition example_proposal :: Proposal where
  "example_proposal =
     \<lparr>p_id = 1, created_ts = 0,
      title = ''Hold profile and reduce speed until risk stabilizes'',
      rationale = ''overall risk 70.0% > safe band'', status = PENDING, snapshot = []\<rparr>"

definition example_session :: session where
  "example_session = (init_state 0)\<lparr>ss_proposals := [example_proposal], ss_next_proposal_id := 2\<rparr>"

definition example_rng :: "nat np_rng" where
  \<comment> \<open>A generator whose state starts at the seed and counts the draws. A normal draw
      depends on the state; no obstacle is ever spawned.\<close>
  "example_rng =
     \<lparr>default_rng = (\<lambda>seed. nat seed),
      rng_normal = (\<lambda>loc scale g. (loc + scale * (real (g mod 3) - 1), Suc g)),
      rng_random = (\<lambda>g. (1 / 2, Suc g)),
      rng_uniform = (\<lambda>lo hi g. ((lo + hi) / 2, Suc g))\<rparr>"

definition spawning_rng :: "nat np_rng" where
  \<comment> \<open>The same generator, except that an obstacle is spawned on every tick.\<close>
  "spawning_rng = example_rng\<lparr>rng_random := (\<lambda>g. (1 / 100, Suc g))\<rparr>"

definition no_rounding :: "real \<Rightarrow> real" where
  \<comment> \<open>The rounding at work where the exact result is itself a float.\<close>
  "no_rounding x = x"

definition started_at :: "real \<Rightarrow> session" where
  \<comment> \<open>A fresh session in which Start has just been pressed, all at one clock reading.\<close>
  "started_at t = start_simulation t t (init_state t)"

definition clock_at :: "real \<Rightarrow> step_clock" where
  \<comment> \<open>A pass whose clock readings are all the same.\<close>
  "clock_at t =
     \<lparr>t_gate = t, t_base = t, t_update = t, t_alert = t, t_created = t, t_logged = t\<rparr>"

definition default_row :: TelemetryRow where
  \<comment> \<open>A row that holds the cold-start values; its risk fields are those of a machine at rest.\<close>
  "default_row =
     \<lparr>tick = 0, ts = 0, speed_kph = 0, gear = 1, engine_rpm = 800, grade_pct = 0,
      roll_deg = 0, pitch_deg = 0, blade_load_pct = 0, fuel_pct = 90, ground_firmness = 7 / 10,
      moisture_index = 3 / 10, visibility = 9 / 10, gnss_hdop = 8 / 10, gnss_jitter_m = 3 / 10,
      obstacle_distance_m = 999, obstacle_bearing_deg = 0, shift_hours = 2,
      micro_corrections_per_min = 22, rollover_risk = 0, slip_risk = 21, obstacle_risk = 0,
      gnss_confidence = 84, overall_risk = 11, state = STABLE\<rparr>"

definition example_full_session :: session where
  \<comment> \<open>Four PENDING proposals, with ids 1 to 4.\<close>
  "example_full_session =
     (init_state 0)\<lparr>ss_proposals := map (\<lambda>k. example_proposal\<lparr>p_id := k\<rparr>) [1, 2, 3, 4],
                     ss_next_proposal_id := 5\<rparr>"

definition example_row :: TelemetryRow where
  \<comment> \<open>A row whose only trigger is the overall risk.\<close>
  "example_row =
     \<lparr>tick = 9, ts = 0, speed_kph = 2, gear = 2, engine_rpm = 1040, grade_pct = 0,
      roll_deg = 0, pitch_deg = 0, blade_load_pct = 0, fuel_pct = 90, ground_firmness = 7 / 10,
      moisture_index = 3 / 10, visibility = 9 / 10, gnss_hdop = 8 / 10, gnss_jitter_m = 3 / 10,
      obstacle_distance_m = 999, obstacle_bearing_deg = 0, shift_hours = 2,
      micro_corrections_per_min = 22, rollover_risk = 0, slip_risk = 0, obstacle_risk = 0,
      gnss_confidence = 90, overall_risk = 70, state = HIGH\<rparr>"

section \<open>Properties\<close>

subsection \<open>Risk engine\<close>

lemma clamp_lower: "lo \<le> hi \<Longrightarrow> lo \<le> clamp v lo hi"
  by (simp add: clamp_def)

lemma clamp_upper: "lo \<le> hi \<Longrightarrow> clamp v lo hi \<le> hi"
  by (simp add: clamp_def)

lemma clamp_id: "lo \<le> v \<Longrightarrow> v \<le> hi \<Longrightarrow> clamp v lo hi = v"
  by (simp add: clamp_def)

text \<open>
  Claim C7. \<^verbatim>\<open>compute_obstacle_risk\<close> is 0 when the distance is at least 80 or is the
  sentinel 999; otherwise, with \<open>speed_mps = max (speed_kph / 3.6) 0.1\<close> and
  \<open>ttc = distance_m / speed_mps\<close>, it is 10 when \<open>ttc > 40\<close>, 35 when \<open>ttc > 20\<close>, 60 when
  \<open>ttc > 10\<close> and 85 otherwise. So it is 0 at distances 999 and 80 for every speed, and
  85 at distance 5 and speed 36.
\<close>

theorem obstacle_risk_piecewise:
  "compute_obstacle_risk d v =
     (if d \<ge> 80 \<or> d = 999 then 0
      else if d / max (v / (36 / 10)) (1 / 10) > 40 then 10
      else if d / max (v / (36 / 10)) (1 / 10) > 20 then 35
      else if d / max (v / (36 / 10)) (1 / 10) > 10 then 60
      else 85)
   \<and> compute_obstacle_risk 999 s = 0
   \<and> compute_obstacle_risk 80 s = 0
   \<and> compute_obstacle_risk 5 36 = 85"
proof -
  have mps: "(if v / (36 / 10) < 1 / 10 then 1 / 10 else v / (36 / 10))
             = max (v / (36 / 10)) (1 / 10)"
    by (simp add: max_def)
  have general: "compute_obstacle_risk d v =
     (if d \<ge> 80 \<or> d = 999 then 0
      else if d / max (v / (36 / 10)) (1 / 10) > 40 then 10
      else if d / max (v / (36 / 10)) (1 / 10) > 20 then 35
      else if d / max (v / (36 / 10)) (1 / 10) > 10 then 60
      else 85)"
    unfolding compute_obstacle_risk_def Let_def mps
    by (simp add: clamp_def)
  have sentinel: "compute_obstacle_risk 999 s = 0"
    by (simp add: compute_obstacle_risk_def)
  have edge: "compute_obstacle_risk 80 s = 0"
    by (simp add: compute_obstacle_risk_def)
  have near: "compute_obstacle_risk 5 36 = 85"
    by (simp add: compute_obstacle_risk_def clamp_def)
  from general sentinel edge near show ?thesis by blast
qed

theorem obstacle_risk_piecewise_witness:
  "compute_obstacle_risk 30 (36 / 10) = 35 \<and> compute_obstacle_risk 79 (36 / 10) = 10
   \<and> compute_obstacle_risk 15 (36 / 10) = 60 \<and> compute_obstacle_risk 100 7 = 0"
  using obstacle_risk_piecewise [of 30 "36 / 10" 0] obstacle_risk_piecewise [of 79 "36 / 10" 0]
    obstacle_risk_piecewise [of 15 "36 / 10" 0] obstacle_risk_piecewise [of 100 7 0]
  by simp

text \<open>
  Claim C8. \<^verbatim>\<open>classify_state\<close> is STABLE below 25, ELEVATED below 50, HIGH below 75 and
  CRITICAL from 75 on; each boundary value belongs to the upper bucket:
  24.999 is STABLE, 25 is ELEVATED, 49.999 is ELEVATED, 50 is HIGH, 74.999 is HIGH and
  75 is CRITICAL.
\<close>

theorem classify_state_buckets:
  "classify_state r =
     (if r < 25 then STABLE else if r < 50 then ELEVATED
      else if r < 75 then HIGH else CRITICAL)
   \<and> classify_state (24999 / 1000) = STABLE
   \<and> classify_state 25 = ELEVATED
   \<and> classify_state (49999 / 1000) = ELEVATED
   \<and> classify_state 50 = HIGH
   \<and> classify_state (74999 / 1000) = HIGH
   \<and> classify_state 75 = CRITICAL"
  by (simp add: classify_state_def)

theorem classify_state_buckets_witness:
  "classify_state 10 = STABLE \<and> classify_state 60 = HIGH \<and> classify_state 100 = CRITICAL"
  using classify_state_buckets [of 10] classify_state_buckets [of 60]
    classify_state_buckets [of 100]
  by simp

subsection \<open>Audit log\<close>

lemma lastn_length: "length (lastn n xs) \<le> n"
  by (simp add: lastn_def)

lemma lastn_short: "length xs \<le> n \<Longrightarrow> lastn n xs = xs"
  by (simp add: lastn_def)

lemma lastn_lastn_append: "lastn n (lastn n xs @ ys) = lastn n (xs @ ys)"
proof (cases "length xs \<le> n")
  case True
  then show ?thesis by (simp add: lastn_short)
next
  case False
  define k where "k = length xs - n"
  have len: "length xs = k + n" using False by (simp add: k_def)
  have "lastn n (lastn n xs @ ys) = drop (length ys) (drop k xs @ ys)"
    by (simp add: lastn_def len)
  also have "\<dots> = drop (length ys) (drop k (xs @ ys))"
    by (simp add: len)
  also have "\<dots> = drop (length ys + k) (xs @ ys)"
    by (simp only: drop_drop)
  also have "\<dots> = lastn n (xs @ ys)"
    by (simp add: lastn_def len add.commute)
  finally show ?thesis .
qed

lemma log_audit_audit:
  "ss_audit (log_audit now k sm m s) = lastn 150 (ss_audit s @ [entry_of (now, k, sm, m)])"
  by (simp add: log_audit_def entry_of_def Let_def)

lemma log_audit_all_audit:
  "length (ss_audit s) \<le> 150 \<Longrightarrow>
   ss_audit (log_audit_all cs s) = lastn 150 (ss_audit s @ map entry_of cs)"
proof (induction cs arbitrary: s)
  case Nil
  then show ?case by (simp add: lastn_short)
next
  case (Cons c cs)
  obtain now k sm m where c: "c = (now, k, sm, m)" by (cases c) auto
  have len: "length (ss_audit (log_audit now k sm m s)) \<le> 150"
    by (simp add: log_audit_audit lastn_length)
  have "ss_audit (log_audit_all (c # cs) s)
        = lastn 150 (lastn 150 (ss_audit s @ [entry_of c]) @ map entry_of cs)"
    using Cons.IH [OF len] by (simp add: c log_audit_audit)
  also have "\<dots> = lastn 150 ((ss_audit s @ [entry_of c]) @ map entry_of cs)"
    by (rule lastn_lastn_append)
  finally show ?case by simp
qed

lemma lastn_151: "length xs = 151 \<Longrightarrow> lastn 150 xs = tl xs"
  by (simp add: lastn_def drop_Suc)

text \<open>
  Claim C5. The audit log never holds more than 150 entries. Every call of \<^verbatim>\<open>log_audit\<close>
  puts the new entry at the end and keeps the last 150, so the oldest entries leave from
  the front and the kept ones stay in insertion order. After 151 calls on an empty log
  the first entry is gone and the 151st is the last one.
\<close>

theorem audit_log_bounded_fifo:
  "length (ss_audit (log_audit now k sm m s)) \<le> 150
   \<and> ss_audit (log_audit now k sm m s) = lastn 150 (ss_audit s @ [entry_of (now, k, sm, m)])
   \<and> (length (ss_audit s) \<le> 150 \<longrightarrow>
        length (ss_audit (log_audit_all cs s)) \<le> 150
        \<and> ss_audit (log_audit_all cs s) = lastn 150 (ss_audit s @ map entry_of cs))
   \<and> (ss_audit s = [] \<and> length cs = 151 \<longrightarrow>
        ss_audit (log_audit_all cs s) = tl (map entry_of cs)
        \<and> last (ss_audit (log_audit_all cs s)) = entry_of (cs ! 150)
        \<and> (distinct (map entry_of cs) \<longrightarrow>
             entry_of (cs ! 0) \<notin> set (ss_audit (log_audit_all cs s))))"
proof -
  have one: "length (ss_audit (log_audit now k sm m s)) \<le> 150"
    by (simp add: log_audit_audit lastn_length)
  have many: "length (ss_audit s) \<le> 150 \<longrightarrow>
        length (ss_audit (log_audit_all cs s)) \<le> 150
        \<and> ss_audit (log_audit_all cs s) = lastn 150 (ss_audit s @ map entry_of cs)"
    by (simp add: log_audit_all_audit lastn_length)
  have overflow: "ss_audit s = [] \<and> length cs = 151 \<longrightarrow>
        ss_audit (log_audit_all cs s) = tl (map entry_of cs)
        \<and> last (ss_audit (log_audit_all cs s)) = entry_of (cs ! 150)
        \<and> (distinct (map entry_of cs) \<longrightarrow>
             entry_of (cs ! 0) \<notin> set (ss_audit (log_audit_all cs s)))"
  proof (intro impI, elim conjE)
    assume empty: "ss_audit s = []" and n: "length cs = 151"
    obtain c rest where cs: "cs = c # rest" and r: "length rest = 150"
      using n by (cases cs) auto
    have eq: "ss_audit (log_audit_all cs s) = tl (map entry_of cs)"
      using empty n by (simp add: log_audit_all_audit lastn_151)
    have rest_ne: "rest \<noteq> []" using r by auto
    have "last (map entry_of rest) = entry_of (rest ! 149)"
      using r rest_ne by (simp add: last_conv_nth)
    then have lst: "last (ss_audit (log_audit_all cs s)) = entry_of (cs ! 150)"
      unfolding eq by (simp add: cs)
    have gone: "distinct (map entry_of cs) \<longrightarrow>
             entry_of (cs ! 0) \<notin> set (ss_audit (log_audit_all cs s))"
      unfolding eq by (simp add: cs)
    from eq lst gone show "ss_audit (log_audit_all cs s) = tl (map entry_of cs)
        \<and> last (ss_audit (log_audit_all cs s)) = entry_of (cs ! 150)
        \<and> (distinct (map entry_of cs) \<longrightarrow>
             entry_of (cs ! 0) \<notin> set (ss_audit (log_audit_all cs s)))"
      by blast
  qed
  from one log_audit_audit many overflow show ?thesis by blast
qed

theorem audit_log_bounded_fifo_witness:
  "length (ss_audit (log_audit_all (map (\<lambda>i. (real i, control, str_nat i, None)) [0..<151])
             (init_state 0))) = 150
   \<and> entry_of (0, control, ''0'', None)
        \<notin> set (ss_audit (log_audit_all (map (\<lambda>i. (real i, control, str_nat i, None)) [0..<151])
             (init_state 0)))
   \<and> last (ss_audit (log_audit_all (map (\<lambda>i. (real i, control, str_nat i, None)) [0..<151])
             (init_state 0))) = entry_of (150, control, ''150'', None)"
proof -
  let ?cs = "map (\<lambda>i. (real i, control, str_nat i, None :: (string \<times> py_value) list option)) [0..<151]"
  have inj: "inj_on (\<lambda>i. entry_of (real i, control, str_nat i, None)) {0..<151}"
    by (rule inj_onI) (simp add: entry_of_def)
  have d: "distinct (map entry_of ?cs)"
    using inj by (simp add: distinct_map comp_def)
  have e: "ss_audit (init_state 0) = []" by (simp add: init_state_def)
  have n: "length ?cs = 151" by simp
  have s150: "str_nat 150 = ''150''" by code_simp
  have s0: "str_nat 0 = ''0''" by code_simp
  have c0: "?cs ! 0 = (0, control, ''0'', None)"
    by (simp add: s0 del: str_nat.simps)
  have c150: "?cs ! 150 = (150, control, ''150'', None)"
    by (simp add: s150 del: str_nat.simps)
  from audit_log_bounded_fifo [of 0 control "[]" None "init_state 0" ?cs] d e n
  have eq: "ss_audit (log_audit_all ?cs (init_state 0)) = tl (map entry_of ?cs)"
    and lst: "last (ss_audit (log_audit_all ?cs (init_state 0))) = entry_of (?cs ! 150)"
    and gone: "entry_of (?cs ! 0) \<notin> set (ss_audit (log_audit_all ?cs (init_state 0)))"
    by blast+
  have len: "length (ss_audit (log_audit_all ?cs (init_state 0))) = 150"
    unfolding eq by simp
  from len gone lst show ?thesis
    unfolding c0 c150 by blast
qed

subsection \<open>Proposal life cycle\<close>

lemma log_audit_proposals: "ss_proposals (log_audit now k sm m s) = ss_proposals s"
  by (simp add: log_audit_def Let_def)

lemma update_proposals:
  "i < length (ss_proposals s) \<Longrightarrow>
   ss_proposals (update_proposal_status now i st s)
     = (ss_proposals s)[i := (ss_proposals s ! i)\<lparr>status := st\<rparr>]"
  by (simp add: update_proposal_status_def Let_def log_audit_proposals)

lemma update_audit:
  "i < length (ss_proposals s) \<Longrightarrow>
   ss_audit (update_proposal_status now i st s)
     = lastn 150 (ss_audit s @
         [\<lparr>a_ts = now, kind = decision,
           summary = status_str st @ '' '' @ right_arrow @ '' Proposal #''
                     @ str_int (p_id (ss_proposals s ! i)),
           meta = [(''title'', PyStr (title (ss_proposals s ! i))),
                   (''prev'', PyStr (status_str (status (ss_proposals s ! i))))]\<rparr>])"
  by (simp add: update_proposal_status_def Let_def log_audit_def del: str_nat.simps)

lemma find_index_id_None: "(find_index_id pid ps = None) = (\<forall>p \<in> set ps. p_id p \<noteq> pid)"
  by (induction ps) auto

lemma find_index_id_Some:
  "(find_index_id pid ps = Some i)
     = (i < length ps \<and> p_id (ps ! i) = pid \<and> (\<forall>j < i. p_id (ps ! j) \<noteq> pid))"
proof (induction ps arbitrary: i)
  case Nil
  then show ?case by simp
next
  case (Cons p ps)
  show ?case
  proof (cases "p_id p = pid")
    case True
    then show ?thesis by (cases i) auto
  next
    case False
    show ?thesis
    proof (cases i)
      case 0
      with False show ?thesis by auto
    next
      case (Suc k)
      have "(\<forall>j < Suc k. p_id ((p # ps) ! j) \<noteq> pid) = (\<forall>j < k. p_id (ps ! j) \<noteq> pid)"
        using False by (auto simp: less_Suc_eq_0_disj)
      with False Suc Cons.IH [of k] show ?thesis by auto
    qed
  qed
qed

lemma filter_update_le:
  "\<not> P y \<Longrightarrow> length (filter P (xs[i := y])) \<le> length (filter P xs)"
proof (induction xs arbitrary: i)
  case Nil
  then show ?case by simp
next
  case (Cons x xs)
  then show ?case by (cases i) (auto simp: le_SucI)
qed

lemma filter_update_drop:
  "\<not> P y \<Longrightarrow> i < length xs \<Longrightarrow> P (xs ! i) \<Longrightarrow>
   Suc (length (filter P (xs[i := y]))) = length (filter P xs)"
proof (induction xs arbitrary: i)
  case Nil
  then show ?case by simp
next
  case (Cons x xs)
  then show ?case by (cases i) auto
qed

lemma maybe_generate_cases:
  "maybe_generate_proposal fmt t1 t2 row s = s
   \<or> (pending_count s < 4 \<and> triggers_of row \<noteq> []
      \<and> (\<exists>prop. status prop = PENDING \<and> p_id prop = ss_next_proposal_id s
            \<and> ss_proposals (maybe_generate_proposal fmt t1 t2 row s) = ss_proposals s @ [prop]))"
  by (simp add: maybe_generate_proposal_def Let_def pending_count_def log_audit_proposals
      del: str_nat.simps)

lemma maybe_generate_fires:
  "pending_count s < 4 \<Longrightarrow> triggers_of row \<noteq> [] \<Longrightarrow>
   \<exists>prop. status prop = PENDING \<and> p_id prop = ss_next_proposal_id s
      \<and> ss_proposals (maybe_generate_proposal fmt t1 t2 row s) = ss_proposals s @ [prop]"
  by (simp add: maybe_generate_proposal_def Let_def pending_count_def log_audit_proposals
      del: str_nat.simps)


lemma find_index_id_update:
  "find_index_id pid (ps[i := (ps ! i)\<lparr>status := st\<rparr>]) = find_index_id pid ps"
proof (induction ps arbitrary: i)
  case Nil
  then show ?case by simp
next
  case (Cons p ps)
  then show ?case by (cases i) simp_all
qed

lemma update_frame_session:
  "ss_tick (update_proposal_status now i st s) = ss_tick s
   \<and> ss_running (update_proposal_status now i st s) = ss_running s
   \<and> ss_last_update (update_proposal_status now i st s) = ss_last_update s
   \<and> ss_history (update_proposal_status now i st s) = ss_history s
   \<and> ss_next_proposal_id (update_proposal_status now i st s) = ss_next_proposal_id s"
  by (simp add: update_proposal_status_def log_audit_def Let_def del: str_nat.simps)

text \<open>
  Claim C1. A decision on the proposal with a given id, with new status APPROVED,
  REJECTED or DEFERRED: when no proposal has that id the call fails (the lookup raises
  \<^verbatim>\<open>StopIteration\<close>) and nothing is changed; when the proposal is not PENDING the call
  fails (its button is disabled) and the session is left as it is, with no field of any
  proposal changed and no audit entry appended; when the proposal is PENDING the call
  succeeds, sets that proposal's status to the new one and appends exactly one audit
  entry of kind decision that records the previous status. So a second decision on the
  same id fails and appends nothing.
\<close>

theorem decide_pending_only:
  "((\<forall>p \<in> set (ss_proposals s). p_id p \<noteq> pid) \<longrightarrow>
      press_decision now pid st s = Inl StopIteration)
   \<and> (i < length (ss_proposals s) \<and> p_id (ss_proposals s ! i) = pid
        \<and> (\<forall>j < i. p_id (ss_proposals s ! j) \<noteq> pid) \<longrightarrow>
        (status (ss_proposals s ! i) \<noteq> PENDING \<longrightarrow>
           press_decision now pid st s = Inr (False, s))
        \<and> (status (ss_proposals s ! i) = PENDING \<longrightarrow>
             (\<exists>s'. press_decision now pid st s = Inr (True, s')
                \<and> ss_proposals s' = (ss_proposals s)[i := (ss_proposals s ! i)\<lparr>status := st\<rparr>]
                \<and> status (ss_proposals s' ! i) = st
                \<and> ss_audit s'
                    = lastn 150 (ss_audit s @
                        [\<lparr>a_ts = now, kind = decision,
                          summary = status_str st @ '' '' @ right_arrow @ '' Proposal #''
                                    @ str_int pid,
                          meta = [(''title'', PyStr (title (ss_proposals s ! i))),
                                  (''prev'', PyStr ''PENDING'')]\<rparr>])
                \<and> ss_tick s' = ss_tick s \<and> ss_running s' = ss_running s
                \<and> ss_last_update s' = ss_last_update s \<and> ss_history s' = ss_history s
                \<and> ss_next_proposal_id s' = ss_next_proposal_id s
                \<and> (st \<noteq> PENDING \<longrightarrow>
                     press_decision now2 pid st2 s' = Inr (False, s')))))"
proof -
  have missing: "(\<forall>p \<in> set (ss_proposals s). p_id p \<noteq> pid) \<longrightarrow>
      press_decision now pid st s = Inl StopIteration"
    by (simp add: press_decision_def find_index_id_None [symmetric])
  have found: "i < length (ss_proposals s) \<and> p_id (ss_proposals s ! i) = pid
        \<and> (\<forall>j < i. p_id (ss_proposals s ! j) \<noteq> pid) \<longrightarrow>
        (status (ss_proposals s ! i) \<noteq> PENDING \<longrightarrow>
           press_decision now pid st s = Inr (False, s))
        \<and> (status (ss_proposals s ! i) = PENDING \<longrightarrow>
             (\<exists>s'. press_decision now pid st s = Inr (True, s')
                \<and> ss_proposals s' = (ss_proposals s)[i := (ss_proposals s ! i)\<lparr>status := st\<rparr>]
                \<and> status (ss_proposals s' ! i) = st
                \<and> ss_audit s'
                    = lastn 150 (ss_audit s @
                        [\<lparr>a_ts = now, kind = decision,
                          summary = status_str st @ '' '' @ right_arrow @ '' Proposal #''
                                    @ str_int pid,
                          meta = [(''title'', PyStr (title (ss_proposals s ! i))),
                                  (''prev'', PyStr ''PENDING'')]\<rparr>])
                \<and> ss_tick s' = ss_tick s \<and> ss_running s' = ss_running s
                \<and> ss_last_update s' = ss_last_update s \<and> ss_history s' = ss_history s
                \<and> ss_next_proposal_id s' = ss_next_proposal_id s
                \<and> (st \<noteq> PENDING \<longrightarrow>
                     press_decision now2 pid st2 s' = Inr (False, s'))))"
  proof (intro impI conjI; elim conjE)
    assume i: "i < length (ss_proposals s)" and id: "p_id (ss_proposals s ! i) = pid"
      and first: "\<forall>j < i. p_id (ss_proposals s ! j) \<noteq> pid"
    then have idx: "find_index_id pid (ss_proposals s) = Some i"
      by (simp add: find_index_id_Some)
    {
      assume "status (ss_proposals s ! i) \<noteq> PENDING"
      then show "press_decision now pid st s = Inr (False, s)"
        by (simp add: press_decision_def idx)
    }
    {
      assume pend: "status (ss_proposals s ! i) = PENDING"
      let ?s' = "update_proposal_status now i st s"
      have press: "press_decision now pid st s = Inr (True, ?s')"
        by (simp add: press_decision_def idx pend)
      have props: "ss_proposals ?s' = (ss_proposals s)[i := (ss_proposals s ! i)\<lparr>status := st\<rparr>]"
        using i by (rule update_proposals)
      have stat: "status (ss_proposals ?s' ! i) = st"
        unfolding props using i by simp
      have audit: "ss_audit ?s'
                    = lastn 150 (ss_audit s @
                        [\<lparr>a_ts = now, kind = decision,
                          summary = status_str st @ '' '' @ right_arrow @ '' Proposal #''
                                    @ str_int pid,
                          meta = [(''title'', PyStr (title (ss_proposals s ! i))),
                                  (''prev'', PyStr ''PENDING'')]\<rparr>])"
        using update_audit [OF i, of now st] by (simp add: id pend status_str_def)
      have idx': "find_index_id pid (ss_proposals ?s') = Some i"
        unfolding props find_index_id_update by (rule idx)
      have again: "st \<noteq> PENDING \<longrightarrow> press_decision now2 pid st2 ?s' = Inr (False, ?s')"
        by (simp add: press_decision_def idx' stat)
      from press props stat audit again update_frame_session [of now i st s]
      show "\<exists>s'. press_decision now pid st s = Inr (True, s')
                \<and> ss_proposals s' = (ss_proposals s)[i := (ss_proposals s ! i)\<lparr>status := st\<rparr>]
                \<and> status (ss_proposals s' ! i) = st
                \<and> ss_audit s'
                    = lastn 150 (ss_audit s @
                        [\<lparr>a_ts = now, kind = decision,
                          summary = status_str st @ '' '' @ right_arrow @ '' Proposal #''
                                    @ str_int pid,
                          meta = [(''title'', PyStr (title (ss_proposals s ! i))),
                                  (''prev'', PyStr ''PENDING'')]\<rparr>])
                \<and> ss_tick s' = ss_tick s \<and> ss_running s' = ss_running s
                \<and> ss_last_update s' = ss_last_update s \<and> ss_history s' = ss_history s
                \<and> ss_next_proposal_id s' = ss_next_proposal_id s
                \<and> (st \<noteq> PENDING \<longrightarrow>
                     press_decision now2 pid st2 s' = Inr (False, s'))"
        by blast
    }
  qed
  from missing found show ?thesis by blast
qed

theorem decide_pending_only_witness:
  "press_decision 1 7 APPROVED example_session = Inl StopIteration
   \<and> press_decision 1 1 APPROVED example_session
       = Inr (True, update_proposal_status 1 0 APPROVED example_session)
   \<and> status (ss_proposals (update_proposal_status 1 0 APPROVED example_session) ! 0) = APPROVED
   \<and> length (ss_audit (update_proposal_status 1 0 APPROVED example_session)) = 1
   \<and> press_decision 2 1 REJECTED (update_proposal_status 1 0 APPROVED example_session)
       = Inr (False, update_proposal_status 1 0 APPROVED example_session)
   \<and> press_decision 3 1 DEFERRED (update_proposal_status 1 0 APPROVED example_session)
       = Inr (False, update_proposal_status 1 0 APPROVED example_session)"
proof -
  let ?s' = "update_proposal_status 1 0 APPROVED example_session"
  have ps: "ss_proposals example_session = [example_proposal]"
    and au: "ss_audit example_session = []"
    by (simp_all add: example_session_def init_state_def)
  have pr: "p_id example_proposal = 1" "status example_proposal = PENDING"
    by (simp_all add: example_proposal_def)
  have direct: "press_decision 1 1 APPROVED example_session = Inr (True, ?s')"
    by (simp add: press_decision_def ps pr)
  note thm1 = decide_pending_only [of example_session 7 1 APPROVED 0 2 REJECTED]
  from thm1 have a: "press_decision 1 7 APPROVED example_session = Inl StopIteration"
    by (simp add: ps pr)
  note thm2 = decide_pending_only [of example_session 1 1 APPROVED 0 2 REJECTED]
  from thm2 obtain s' where
    p: "press_decision 1 1 APPROVED example_session = Inr (True, s')"
    and st: "status (ss_proposals s' ! 0) = APPROVED"
    and au': "ss_audit s' = lastn 150 (ss_audit example_session @
                        [\<lparr>a_ts = 1, kind = decision,
                          summary = status_str APPROVED @ '' '' @ right_arrow @ '' Proposal #''
                                    @ str_int 1,
                          meta = [(''title'', PyStr (title (ss_proposals example_session ! 0))),
                                  (''prev'', PyStr ''PENDING'')]\<rparr>])"
    and rep: "press_decision 2 1 REJECTED s' = Inr (False, s')"
    by (auto simp: ps pr simp del: str_nat.simps)
  from p direct have s': "s' = ?s'" by simp
  have len: "length (ss_audit s') = 1"
    unfolding au' by (simp add: au lastn_def)
  have ps': "ss_proposals ?s' = [example_proposal\<lparr>status := APPROVED\<rparr>]"
    by (simp add: update_proposals ps)
  from decide_pending_only [of ?s' 1 3 DEFERRED 0 4 REJECTED]
  have decided: "press_decision 3 1 DEFERRED ?s' = Inr (False, ?s')"
    by (simp add: ps' pr)
  from a direct st len rep decided show ?thesis unfolding s' by blast
qed

text \<open>
  Claim C9. \<^verbatim>\<open>update_proposal_status\<close> changes only the status of the proposal it is given:
  that proposal's id, creation time, title, rationale and snapshot stay as they were,
  every other proposal of the collection is untouched, and the collection keeps its
  length and its order.
\<close>

theorem update_proposal_status_frame:
  "length (ss_proposals (update_proposal_status now i st s)) = length (ss_proposals s)
   \<and> (\<forall>j < length (ss_proposals s).
        (j \<noteq> i \<longrightarrow> ss_proposals (update_proposal_status now i st s) ! j = ss_proposals s ! j)
        \<and> p_id (ss_proposals (update_proposal_status now i st s) ! j) = p_id (ss_proposals s ! j)
        \<and> created_ts (ss_proposals (update_proposal_status now i st s) ! j)
            = created_ts (ss_proposals s ! j)
        \<and> title (ss_proposals (update_proposal_status now i st s) ! j) = title (ss_proposals s ! j)
        \<and> rationale (ss_proposals (update_proposal_status now i st s) ! j)
            = rationale (ss_proposals s ! j)
        \<and> snapshot (ss_proposals (update_proposal_status now i st s) ! j)
            = snapshot (ss_proposals s ! j))
   \<and> (i < length (ss_proposals s) \<longrightarrow>
        ss_proposals (update_proposal_status now i st s)
          = (ss_proposals s)[i := (ss_proposals s ! i)\<lparr>status := st\<rparr>])"
proof (cases "i < length (ss_proposals s)")
  case True
  then show ?thesis
    by (simp add: update_proposals nth_list_update)
next
  case False
  then show ?thesis
    by (simp add: update_proposal_status_def)
qed

theorem update_proposal_status_frame_witness:
  "length (ss_proposals (update_proposal_status 5 0 APPROVED example_full_session)) = 4
   \<and> ss_proposals (update_proposal_status 5 0 APPROVED example_full_session) ! 1
       = ss_proposals example_full_session ! 1
   \<and> title (ss_proposals (update_proposal_status 5 0 APPROVED example_full_session) ! 0)
       = title example_proposal
   \<and> status (ss_proposals (update_proposal_status 5 0 APPROVED example_full_session) ! 0)
       = APPROVED"
proof -
  have len: "length (ss_proposals example_full_session) = 4"
    by (simp add: example_full_session_def)
  have j0: "(0::nat) < length (ss_proposals example_full_session)"
    and j1: "(1::nat) < length (ss_proposals example_full_session)"
    and ne: "(1::nat) \<noteq> 0"
    by (simp_all add: len)
  have first: "title (ss_proposals example_full_session ! 0) = title example_proposal"
    by (simp add: example_full_session_def)
  note fr = update_proposal_status_frame [of 5 0 APPROVED example_full_session]
  from fr have n: "length (ss_proposals (update_proposal_status 5 0 APPROVED example_full_session)) = 4"
    unfolding len by blast
  from fr j1 ne have one: "ss_proposals (update_proposal_status 5 0 APPROVED example_full_session) ! 1
       = ss_proposals example_full_session ! 1"
    by blast
  from fr j0 have "title (ss_proposals (update_proposal_status 5 0 APPROVED example_full_session) ! 0)
       = title (ss_proposals example_full_session ! 0)"
    by blast
  then have ttl: "title (ss_proposals (update_proposal_status 5 0 APPROVED example_full_session) ! 0)
       = title example_proposal"
    unfolding first .
  from fr j0 have target: "ss_proposals (update_proposal_status 5 0 APPROVED example_full_session)
          = (ss_proposals example_full_session)
              [0 := (ss_proposals example_full_session ! 0)\<lparr>status := APPROVED\<rparr>]"
    by blast
  have st: "status (ss_proposals (update_proposal_status 5 0 APPROVED example_full_session) ! 0)
       = APPROVED"
    unfolding target using j0 by simp
  from n one ttl st show ?thesis by blast
qed

lemma pending_count_update_le:
  "st \<noteq> PENDING \<Longrightarrow> pending_count (update_proposal_status now i st s) \<le> pending_count s"
proof (cases "i < length (ss_proposals s)")
  case True
  assume "st \<noteq> PENDING"
  then show ?thesis
    using True by (simp add: pending_count_def update_proposals filter_update_le)
next
  case False
  then show ?thesis by (simp add: update_proposal_status_def)
qed

lemma pending_count_update_drop:
  assumes "st \<noteq> PENDING" "i < length (ss_proposals s)" "status (ss_proposals s ! i) = PENDING"
  shows "Suc (pending_count (update_proposal_status now i st s)) = pending_count s"
proof -
  have "Suc (length (filter (\<lambda>p. status p = PENDING)
               ((ss_proposals s)[i := (ss_proposals s ! i)\<lparr>status := st\<rparr>])))
        = length (filter (\<lambda>p. status p = PENDING) (ss_proposals s))"
    by (rule filter_update_drop) (use assms in simp_all)
  then show ?thesis
    using assms(2) by (simp add: pending_count_def update_proposals)
qed

lemma maybe_generate_blocked:
  "4 \<le> pending_count s \<Longrightarrow> maybe_generate_proposal fmt t1 t2 row s = s"
  by (simp add: maybe_generate_proposal_def pending_count_def)

lemma maybe_generate_bound:
  "pending_count s \<le> 4 \<Longrightarrow> pending_count (maybe_generate_proposal fmt t1 t2 row s) \<le> 4"
  using maybe_generate_cases [of fmt t1 t2 row s]
  by (auto simp: pending_count_def)

text \<open>
  Claim C6. Backpressure: while at least 4 proposals are PENDING,
  \<^verbatim>\<open>maybe_generate_proposal\<close> creates nothing, so the number of PENDING proposals never
  exceeds 4 (it is 0 at start, no decision raises it, and a new row raises it to at
  most 4). When one of 4 PENDING proposals has been decided, a row with a trigger
  creates a new PENDING proposal.
\<close>

theorem backpressure_cap:
  "(4 \<le> pending_count s \<longrightarrow> maybe_generate_proposal fmt t1 t2 row s = s)
   \<and> pending_count (init_state now) = 0
   \<and> (pending_count s \<le> 4 \<longrightarrow> pending_count (maybe_generate_proposal fmt t1 t2 row s) \<le> 4)
   \<and> (st \<noteq> PENDING \<longrightarrow>
        pending_count (update_proposal_status now i st s) \<le> pending_count s)
   \<and> (pending_count s = 4 \<and> i < length (ss_proposals s)
        \<and> status (ss_proposals s ! i) = PENDING \<and> st \<noteq> PENDING \<and> triggers_of row \<noteq> [] \<longrightarrow>
        pending_count (update_proposal_status now i st s) = 3
        \<and> length (ss_proposals
             (maybe_generate_proposal fmt t1 t2 row (update_proposal_status now i st s)))
            = Suc (length (ss_proposals s))
        \<and> status (last (ss_proposals
             (maybe_generate_proposal fmt t1 t2 row (update_proposal_status now i st s))))
            = PENDING
        \<and> pending_count
             (maybe_generate_proposal fmt t1 t2 row (update_proposal_status now i st s)) = 4)"
proof -
  have blocked: "4 \<le> pending_count s \<longrightarrow> maybe_generate_proposal fmt t1 t2 row s = s"
    by (simp add: maybe_generate_blocked)
  have start: "pending_count (init_state now) = 0"
    by (simp add: pending_count_def init_state_def)
  have bound: "pending_count s \<le> 4 \<longrightarrow>
      pending_count (maybe_generate_proposal fmt t1 t2 row s) \<le> 4"
    by (simp add: maybe_generate_bound)
  have decide: "st \<noteq> PENDING \<longrightarrow>
      pending_count (update_proposal_status now i st s) \<le> pending_count s"
    by (simp add: pending_count_update_le)
  have reopen: "pending_count s = 4 \<and> i < length (ss_proposals s)
        \<and> status (ss_proposals s ! i) = PENDING \<and> st \<noteq> PENDING \<and> triggers_of row \<noteq> [] \<longrightarrow>
        pending_count (update_proposal_status now i st s) = 3
        \<and> length (ss_proposals
             (maybe_generate_proposal fmt t1 t2 row (update_proposal_status now i st s)))
            = Suc (length (ss_proposals s))
        \<and> status (last (ss_proposals
             (maybe_generate_proposal fmt t1 t2 row (update_proposal_status now i st s))))
            = PENDING
        \<and> pending_count
             (maybe_generate_proposal fmt t1 t2 row (update_proposal_status now i st s)) = 4"
  proof (intro impI, elim conjE)
    let ?s' = "update_proposal_status now i st s"
    assume four: "pending_count s = 4" and i: "i < length (ss_proposals s)"
      and pend: "status (ss_proposals s ! i) = PENDING" and st: "st \<noteq> PENDING"
      and trig: "triggers_of row \<noteq> []"
    have three: "pending_count ?s' = 3"
      using pending_count_update_drop [OF st i pend, of now] four by simp
    then have room: "pending_count ?s' < 4" by simp
    from maybe_generate_fires [OF room trig, of fmt t1 t2]
    obtain q where p: "status q = PENDING"
      and ps: "ss_proposals (maybe_generate_proposal fmt t1 t2 row ?s')
                 = ss_proposals ?s' @ [q]"
      by blast
    have len: "length (ss_proposals ?s') = length (ss_proposals s)"
      using i by (simp add: update_proposals)
    have cnt: "pending_count (maybe_generate_proposal fmt t1 t2 row ?s') = 4"
      using three p by (simp add: pending_count_def ps)
    from three len p cnt
    show "pending_count ?s' = 3
        \<and> length (ss_proposals (maybe_generate_proposal fmt t1 t2 row ?s'))
            = Suc (length (ss_proposals s))
        \<and> status (last (ss_proposals (maybe_generate_proposal fmt t1 t2 row ?s'))) = PENDING
        \<and> pending_count (maybe_generate_proposal fmt t1 t2 row ?s') = 4"
      by (simp add: ps)
  qed
  from blocked start bound decide reopen show ?thesis by blast
qed


theorem backpressure_cap_witness:
  "maybe_generate_proposal (\<lambda>d x. []) 1 2 example_row example_full_session
     = example_full_session
   \<and> pending_count (update_proposal_status 3 0 APPROVED example_full_session) = 3
   \<and> length (ss_proposals (maybe_generate_proposal (\<lambda>d x. []) 1 2 example_row
         (update_proposal_status 3 0 APPROVED example_full_session))) = 5
   \<and> pending_count (maybe_generate_proposal (\<lambda>d x. []) 1 2 example_row
         (update_proposal_status 3 0 APPROVED example_full_session)) = 4"
proof -
  have four: "pending_count example_full_session = 4"
    by (simp add: pending_count_def example_full_session_def example_proposal_def)
  have len: "length (ss_proposals example_full_session) = 4"
    by (simp add: example_full_session_def)
  have first: "status (ss_proposals example_full_session ! 0) = PENDING"
    by (simp add: example_full_session_def example_proposal_def)
  have trig: "triggers_of example_row \<noteq> []"
    by (simp add: triggers_of_def example_row_def)
  from backpressure_cap [where s = example_full_session and row = example_row
      and fmt = "\<lambda>d x. []" and ?t1.0 = 1 and ?t2.0 = 2 and now = 3 and i = 0
      and st = APPROVED]
  show ?thesis
    using four len first trig by simp
qed

subsection \<open>Telemetry generator: ranges\<close>

lemma speed_gear_rpm_shape:
  "speed_gear_rpm R tk v g = (v', g') \<Longrightarrow>
   \<exists>x n. v' = v\<lparr>v_speed_kph := clamp x 0 12,
                 v_gear := clamp_int (py_round (1 + clamp x 0 12 / 3)) 1 4,
                 v_engine_rpm := py_int (clamp n 800 2100)\<rparr>"
  by (auto simp: speed_gear_rpm_def Let_def split_def)

lemma terrain_grade_shape:
  "terrain_grade R tk v g = (v', g') \<Longrightarrow> \<exists>x. v' = v\<lparr>v_grade_pct := clamp x (- 22) 22\<rparr>"
  by (auto simp: terrain_grade_def Let_def split_def)

lemma roll_pitch_shape:
  "roll_pitch R v g = (v', g') \<Longrightarrow>
   \<exists>x y. v' = v\<lparr>v_roll_deg := clamp x (- 18) 18, v_pitch_deg := clamp y (- 15) 15\<rparr>"
  by (auto simp: roll_pitch_def Let_def split_def)

lemma blade_load_shape:
  "blade_load R tk v g = (v', g') \<Longrightarrow> \<exists>x. v' = v\<lparr>v_blade_load_pct := clamp x 0 115\<rparr>"
  by (auto simp: blade_load_def Let_def split_def)

lemma fuel_burn_shape:
  "fuel_burn v
     = v\<lparr>v_fuel_pct := clamp (v_fuel_pct v - (3 / 100 + v_speed_kph v * (1 / 100))) 5 100\<rparr>"
  by (simp add: fuel_burn_def Let_def)

lemma ground_moisture_shape:
  "ground_moisture R tk v g = (v', g') \<Longrightarrow>
   \<exists>x y. v' = v\<lparr>v_moisture_index := clamp x (1 / 10) (95 / 100),
                 v_ground_firmness := clamp y (25 / 100) (95 / 100)\<rparr>"
  by (auto simp: ground_moisture_def Let_def split_def)

lemma visibility_drift_shape:
  "visibility_drift R v g = (v', g') \<Longrightarrow> \<exists>x. v' = v\<lparr>v_visibility := clamp x (3 / 10) 1\<rparr>"
  by (auto simp: visibility_drift_def Let_def split_def)

lemma gnss_quality_shape:
  "gnss_quality R v g = (v', g') \<Longrightarrow>
   \<exists>x y. v' = v\<lparr>v_gnss_hdop := clamp x (5 / 10) (35 / 10),
                 v_gnss_jitter_m := clamp y (15 / 100) 3\<rparr>"
  by (auto simp: gnss_quality_def Let_def split_def)

lemma obstacles_shape:
  "obstacles R v g = (v', g') \<Longrightarrow>
   \<exists>od ob. v' = v\<lparr>v_obstacle_distance_m := od, v_obstacle_bearing_deg := ob\<rparr>
     \<and> ((\<exists>h. od = fst (rng_uniform R 6 35 h))
          \<or> od = (if v_obstacle_distance_m v + 3 > 80 then 999
                   else v_obstacle_distance_m v + 3))"
proof (cases "fst (rng_random R g) < 6 / 100")
  case True
  assume "obstacles R v g = (v', g')"
  with True have
    "v' = v\<lparr>v_obstacle_distance_m := fst (rng_uniform R 6 35 (snd (rng_random R g))),
            v_obstacle_bearing_deg :=
              fst (rng_uniform R (- 120) 120
                    (snd (rng_uniform R 6 35 (snd (rng_random R g)))))\<rparr>"
    by (auto simp: obstacles_def Let_def split_def)
  then show ?thesis by blast
next
  case False
  assume "obstacles R v g = (v', g')"
  with False have
    "v' = v\<lparr>v_obstacle_distance_m :=
               (if v_obstacle_distance_m v + 3 > 80 then 999 else v_obstacle_distance_m v + 3),
            v_obstacle_bearing_deg := v_obstacle_bearing_deg v\<rparr>"
    by (auto simp: obstacles_def Let_def split_def)
  then show ?thesis by blast
qed

lemma operator_behaviour_shape:
  "operator_behaviour R v g = (v', g') \<Longrightarrow> \<exists>x. v' = v\<lparr>v_micro_corr := clamp x 8 60\<rparr>"
  by (auto simp: operator_behaviour_def Let_def split_def)


lemma evolve_shape:
  "\<exists>S n gr ro pi bl mo fi vi hd ji od ob mi.
     fst (evolve R tk v g)
       = \<lparr>v_speed_kph = clamp S 0 12,
          v_gear = clamp_int (py_round (1 + clamp S 0 12 / 3)) 1 4,
          v_engine_rpm = py_int (clamp n 800 2100),
          v_grade_pct = clamp gr (- 22) 22,
          v_roll_deg = clamp ro (- 18) 18,
          v_pitch_deg = clamp pi (- 15) 15,
          v_blade_load_pct = clamp bl 0 115,
          v_fuel_pct = clamp (v_fuel_pct v - (3 / 100 + clamp S 0 12 * (1 / 100))) 5 100,
          v_ground_firmness = clamp fi (25 / 100) (95 / 100),
          v_moisture_index = clamp mo (1 / 10) (95 / 100),
          v_visibility = clamp vi (3 / 10) 1,
          v_gnss_hdop = clamp hd (5 / 10) (35 / 10),
          v_gnss_jitter_m = clamp ji (15 / 100) 3,
          v_obstacle_distance_m = od,
          v_obstacle_bearing_deg = ob,
          v_shift_hours = v_shift_hours v + 1 / 60,
          v_micro_corr = clamp mi 8 60\<rparr>
     \<and> ((\<exists>h. od = fst (rng_uniform R 6 35 h))
          \<or> od = (if v_obstacle_distance_m v + 3 > 80 then 999
                   else v_obstacle_distance_m v + 3))"
proof -
  define v0 where "v0 = v\<lparr>v_shift_hours := v_shift_hours v + 1 / 60\<rparr>"
  obtain v1 g1 where e1: "speed_gear_rpm R tk v0 g = (v1, g1)" by fastforce
  obtain v2 g2 where e2: "terrain_grade R tk v1 g1 = (v2, g2)" by fastforce
  obtain v3 g3 where e3: "roll_pitch R v2 g2 = (v3, g3)" by fastforce
  obtain v4 g4 where e4: "blade_load R tk v3 g3 = (v4, g4)" by fastforce
  define v5 where "v5 = fuel_burn v4"
  obtain v6 g6 where e6: "ground_moisture R tk v5 g4 = (v6, g6)" by fastforce
  obtain v7 g7 where e7: "visibility_drift R v6 g6 = (v7, g7)" by fastforce
  obtain v8 g8 where e8: "gnss_quality R v7 g7 = (v8, g8)" by fastforce
  obtain v9 g9 where e9: "obstacles R v8 g8 = (v9, g9)" by fastforce
  obtain v10 g10 where e10: "operator_behaviour R v9 g9 = (v10, g10)" by fastforce
  have ev: "fst (evolve R tk v g) = v10"
    by (simp add: evolve_def Let_def v0_def [symmetric] e1 e2 e3 e4 v5_def [symmetric]
        e6 e7 e8 e9 e10)
  from speed_gear_rpm_shape [OF e1] obtain S n where
    s1: "v1 = v0\<lparr>v_speed_kph := clamp S 0 12,
                 v_gear := clamp_int (py_round (1 + clamp S 0 12 / 3)) 1 4,
                 v_engine_rpm := py_int (clamp n 800 2100)\<rparr>"
    by blast
  from terrain_grade_shape [OF e2] obtain gr where
    s2: "v2 = v1\<lparr>v_grade_pct := clamp gr (- 22) 22\<rparr>" by blast
  from roll_pitch_shape [OF e3] obtain ro pi where
    s3: "v3 = v2\<lparr>v_roll_deg := clamp ro (- 18) 18, v_pitch_deg := clamp pi (- 15) 15\<rparr>"
    by blast
  from blade_load_shape [OF e4] obtain bl where
    s4: "v4 = v3\<lparr>v_blade_load_pct := clamp bl 0 115\<rparr>" by blast
  have s5: "v5 = v4\<lparr>v_fuel_pct :=
              clamp (v_fuel_pct v4 - (3 / 100 + v_speed_kph v4 * (1 / 100))) 5 100\<rparr>"
    unfolding v5_def by (rule fuel_burn_shape)
  from ground_moisture_shape [OF e6] obtain mo fi where
    s6: "v6 = v5\<lparr>v_moisture_index := clamp mo (1 / 10) (95 / 100),
                 v_ground_firmness := clamp fi (25 / 100) (95 / 100)\<rparr>"
    by blast
  from visibility_drift_shape [OF e7] obtain vi where
    s7: "v7 = v6\<lparr>v_visibility := clamp vi (3 / 10) 1\<rparr>" by blast
  from gnss_quality_shape [OF e8] obtain hd ji where
    s8: "v8 = v7\<lparr>v_gnss_hdop := clamp hd (5 / 10) (35 / 10),
                 v_gnss_jitter_m := clamp ji (15 / 100) 3\<rparr>"
    by blast
  from obstacles_shape [OF e9] obtain od ob where
    s9: "v9 = v8\<lparr>v_obstacle_distance_m := od, v_obstacle_bearing_deg := ob\<rparr>"
    and od: "(\<exists>h. od = fst (rng_uniform R 6 35 h))
          \<or> od = (if v_obstacle_distance_m v8 + 3 > 80 then 999
                   else v_obstacle_distance_m v8 + 3)"
    by blast
  from operator_behaviour_shape [OF e10] obtain mi where
    s10: "v10 = v9\<lparr>v_micro_corr := clamp mi 8 60\<rparr>" by blast
  have od8: "v_obstacle_distance_m v8 = v_obstacle_distance_m v"
    by (simp add: s8 s7 s6 s5 s4 s3 s2 s1 v0_def)
  have final: "v10
       = \<lparr>v_speed_kph = clamp S 0 12,
          v_gear = clamp_int (py_round (1 + clamp S 0 12 / 3)) 1 4,
          v_engine_rpm = py_int (clamp n 800 2100),
          v_grade_pct = clamp gr (- 22) 22,
          v_roll_deg = clamp ro (- 18) 18,
          v_pitch_deg = clamp pi (- 15) 15,
          v_blade_load_pct = clamp bl 0 115,
          v_fuel_pct = clamp (v_fuel_pct v - (3 / 100 + clamp S 0 12 * (1 / 100))) 5 100,
          v_ground_firmness = clamp fi (25 / 100) (95 / 100),
          v_moisture_index = clamp mo (1 / 10) (95 / 100),
          v_visibility = clamp vi (3 / 10) 1,
          v_gnss_hdop = clamp hd (5 / 10) (35 / 10),
          v_gnss_jitter_m = clamp ji (15 / 100) 3,
          v_obstacle_distance_m = od,
          v_obstacle_bearing_deg = ob,
          v_shift_hours = v_shift_hours v + 1 / 60,
          v_micro_corr = clamp mi 8 60\<rparr>"
    by (simp add: s10 s9 s8 s7 s6 s5 s4 s3 s2 s1 v0_def)
  from ev final od od8 show ?thesis by auto
qed


lemma generate_tick_evolve:
  "generate_tick R fl base_ts s prev
     = compute_risks (ss_tick s + 1) base_ts
         (fst (evolve R (ss_tick s + 1) (case prev of None \<Rightarrow> cold_start | Some p \<Rightarrow> load_prev p)
                (default_rng R (seed_of fl base_ts))))"
  by (simp add: generate_tick_def Let_def split_def)

lemma rollover_bounds:
  "0 \<le> compute_rollover_risk a b c \<and> compute_rollover_risk a b c \<le> 100"
  by (simp add: compute_rollover_risk_def Let_def clamp_lower clamp_upper)

lemma slip_bounds:
  "0 \<le> compute_slip_risk a b c d \<and> compute_slip_risk a b c d \<le> 100"
  by (simp add: compute_slip_risk_def Let_def clamp_lower clamp_upper)

lemma gnss_bounds:
  "0 \<le> compute_gnss_confidence a b c \<and> compute_gnss_confidence a b c \<le> 100"
  by (simp add: compute_gnss_confidence_def Let_def clamp_lower clamp_upper)

lemma overall_bounds:
  "0 \<le> compute_overall_risk a b c d \<and> compute_overall_risk a b c d \<le> 100"
  by (simp add: compute_overall_risk_def Let_def clamp_lower clamp_upper)

lemma obstacle_risk_bounds:
  "0 \<le> compute_obstacle_risk a b \<and> compute_obstacle_risk a b \<le> 100"
  by (simp add: compute_obstacle_risk_def Let_def clamp_def)

lemma py_int_clamp_bounds:
  "800 \<le> py_int (clamp n 800 2100) \<and> py_int (clamp n 800 2100) \<le> 2100"
proof -
  have lo: "800 \<le> clamp n 800 2100" and hi: "clamp n 800 2100 \<le> 2100"
    by (simp_all add: clamp_lower clamp_upper)
  then have "py_int (clamp n 800 2100) = \<lfloor>clamp n 800 2100\<rfloor>"
    by (simp add: py_int_def)
  moreover have "800 \<le> \<lfloor>clamp n 800 2100\<rfloor>" using lo by (simp add: le_floor_iff)
  moreover have "\<lfloor>clamp n 800 2100\<rfloor> \<le> 2100" using hi by (simp add: floor_le_iff)
  ultimately show ?thesis by simp
qed

lemma clamp_int_bounds: "lo \<le> hi \<Longrightarrow> lo \<le> clamp_int x lo hi \<and> clamp_int x lo hi \<le> hi"
  by (simp add: clamp_int_def)

text \<open>
  Claim C4. Every row the generator returns, from any previous row or from a cold start
  and whatever the draws, has its five risk fields in [0, 100], every other bounded
  field in its documented range (speed in [0, 12], gear in [1, 4], rpm in [800, 2100],
  grade in [-22, 22], roll in [-18, 18], pitch in [-15, 15], blade load in [0, 115],
  fuel in [5, 100], moisture in [0.1, 0.95], firmness in [0.25, 0.95], visibility in
  [0.3, 1], HDOP in [0.5, 3.5], jitter in [0.15, 3], micro-corrections in [8, 60]), and
  its label equal to \<^verbatim>\<open>classify_state\<close> of its overall risk.
\<close>

theorem generated_row_in_ranges: "row_in_ranges (generate_tick R fl base_ts s prev)"
proof -
  obtain S n gr ro pi bl mo fi vi hd ji od ob mi where
    ev: "fst (evolve R (ss_tick s + 1)
                (case prev of None \<Rightarrow> cold_start | Some p \<Rightarrow> load_prev p)
                (default_rng R (seed_of fl base_ts)))
       = \<lparr>v_speed_kph = clamp S 0 12,
          v_gear = clamp_int (py_round (1 + clamp S 0 12 / 3)) 1 4,
          v_engine_rpm = py_int (clamp n 800 2100),
          v_grade_pct = clamp gr (- 22) 22,
          v_roll_deg = clamp ro (- 18) 18,
          v_pitch_deg = clamp pi (- 15) 15,
          v_blade_load_pct = clamp bl 0 115,
          v_fuel_pct = clamp (v_fuel_pct (case prev of None \<Rightarrow> cold_start | Some p \<Rightarrow> load_prev p)
                                - (3 / 100 + clamp S 0 12 * (1 / 100))) 5 100,
          v_ground_firmness = clamp fi (25 / 100) (95 / 100),
          v_moisture_index = clamp mo (1 / 10) (95 / 100),
          v_visibility = clamp vi (3 / 10) 1,
          v_gnss_hdop = clamp hd (5 / 10) (35 / 10),
          v_gnss_jitter_m = clamp ji (15 / 100) 3,
          v_obstacle_distance_m = od,
          v_obstacle_bearing_deg = ob,
          v_shift_hours = v_shift_hours (case prev of None \<Rightarrow> cold_start | Some p \<Rightarrow> load_prev p) + 1 / 60,
          v_micro_corr = clamp mi 8 60\<rparr>"
    using evolve_shape [of R "ss_tick s + 1" "case prev of None \<Rightarrow> cold_start | Some p \<Rightarrow> load_prev p"
        "default_rng R (seed_of fl base_ts)"]
    by blast
  have c: "\<And>x lo hi. lo \<le> hi \<Longrightarrow> lo \<le> clamp x lo hi \<and> clamp x lo hi \<le> hi"
    by (simp add: clamp_lower clamp_upper)
  have f1: "1 / 10 \<le> clamp mo (1 / 10) (95 / 100) \<and> clamp mo (1 / 10) (95 / 100) \<le> 95 / 100"
    by (rule c) simp
  have f2: "25 / 100 \<le> clamp fi (25 / 100) (95 / 100) \<and> clamp fi (25 / 100) (95 / 100) \<le> 95 / 100"
    by (rule c) simp
  have f3: "3 / 10 \<le> clamp vi (3 / 10) 1 \<and> clamp vi (3 / 10) 1 \<le> 1"
    by (rule c) simp
  have f4: "5 / 10 \<le> clamp hd (5 / 10) (35 / 10) \<and> clamp hd (5 / 10) (35 / 10) \<le> 35 / 10"
    by (rule c) simp
  have f5: "15 / 100 \<le> clamp ji (15 / 100) 3 \<and> clamp ji (15 / 100) 3 \<le> 3"
    by (rule c) simp
  show ?thesis
    unfolding generate_tick_evolve ev row_in_ranges_def compute_risks_def Let_def
    using f1 f2 f3 f4 f5
    by (simp add: rollover_bounds slip_bounds gnss_bounds overall_bounds obstacle_risk_bounds
        py_int_clamp_bounds clamp_int_bounds clamp_lower clamp_upper)
qed

subsection \<open>Simulation step\<close>

lemma log_audit_frame:
  "ss_history (log_audit now k sm m s) = ss_history s
   \<and> ss_tick (log_audit now k sm m s) = ss_tick s
   \<and> ss_running (log_audit now k sm m s) = ss_running s
   \<and> ss_last_update (log_audit now k sm m s) = ss_last_update s"
  by (simp add: log_audit_def Let_def)

lemma maybe_generate_frame:
  "ss_history (maybe_generate_proposal fmt t1 t2 row s) = ss_history s
   \<and> ss_tick (maybe_generate_proposal fmt t1 t2 row s) = ss_tick s
   \<and> ss_running (maybe_generate_proposal fmt t1 t2 row s) = ss_running s
   \<and> ss_last_update (maybe_generate_proposal fmt t1 t2 row s) = ss_last_update s"
  by (simp add: maybe_generate_proposal_def Let_def log_audit_frame del: str_nat.simps)

lemma simulation_step_closed: "\<not> gate_open fl c s \<Longrightarrow> simulation_step R fl fmt c s = s"
  by (simp add: simulation_step_def)

lemma simulation_step_open:
  assumes "gate_open fl c s"
  shows "ss_history (simulation_step R fl fmt c s)
           = lastn 600 (ss_history s @
               [generate_tick R fl (t_base c) s
                  (if ss_history s \<noteq> [] then Some (last (ss_history s)) else None)])"
    and "ss_tick (simulation_step R fl fmt c s)
           = tick (generate_tick R fl (t_base c) s
                  (if ss_history s \<noteq> [] then Some (last (ss_history s)) else None))"
    and "ss_running (simulation_step R fl fmt c s) = ss_running s"
    and "ss_last_update (simulation_step R fl fmt c s) = t_update c"
  using assms
  by (simp_all add: simulation_step_def Let_def maybe_generate_frame log_audit_frame
      del: str_nat.simps)


subsection \<open>Telemetry generator: obstacle distance\<close>

lemma obstacles_spawn:
  "fst (rng_random R g) < 6 / 100 \<Longrightarrow>
   v_obstacle_distance_m (fst (obstacles R v g)) = fst (rng_uniform R 6 35 (snd (rng_random R g)))"
  by (simp add: obstacles_def Let_def split_def)

lemma obstacles_relax:
  "\<not> fst (rng_random R g) < 6 / 100 \<Longrightarrow>
   v_obstacle_distance_m (fst (obstacles R v g))
     = (if v_obstacle_distance_m v + 3 > 80 then 999 else v_obstacle_distance_m v + 3)"
  by (simp add: obstacles_def Let_def split_def)

lemma evolve_obstacle:
  "\<exists>w h. v_obstacle_distance_m w = v_obstacle_distance_m v
     \<and> v_obstacle_distance_m (fst (evolve R tk v g))
         = v_obstacle_distance_m (fst (obstacles R w h))"
proof -
  define v0 where "v0 = v\<lparr>v_shift_hours := v_shift_hours v + 1 / 60\<rparr>"
  obtain v1 g1 where e1: "speed_gear_rpm R tk v0 g = (v1, g1)" by fastforce
  obtain v2 g2 where e2: "terrain_grade R tk v1 g1 = (v2, g2)" by fastforce
  obtain v3 g3 where e3: "roll_pitch R v2 g2 = (v3, g3)" by fastforce
  obtain v4 g4 where e4: "blade_load R tk v3 g3 = (v4, g4)" by fastforce
  define v5 where "v5 = fuel_burn v4"
  obtain v6 g6 where e6: "ground_moisture R tk v5 g4 = (v6, g6)" by fastforce
  obtain v7 g7 where e7: "visibility_drift R v6 g6 = (v7, g7)" by fastforce
  obtain v8 g8 where e8: "gnss_quality R v7 g7 = (v8, g8)" by fastforce
  obtain v9 g9 where e9: "obstacles R v8 g8 = (v9, g9)" by fastforce
  obtain v10 g10 where e10: "operator_behaviour R v9 g9 = (v10, g10)" by fastforce
  have ev: "fst (evolve R tk v g) = v10"
    by (simp add: evolve_def Let_def v0_def [symmetric] e1 e2 e3 e4 v5_def [symmetric]
        e6 e7 e8 e9 e10)
  have d1: "v_obstacle_distance_m v1 = v_obstacle_distance_m v"
    using speed_gear_rpm_shape [OF e1] by (auto simp: v0_def)
  have d2: "v_obstacle_distance_m v2 = v_obstacle_distance_m v1"
    using terrain_grade_shape [OF e2] by auto
  have d3: "v_obstacle_distance_m v3 = v_obstacle_distance_m v2"
    using roll_pitch_shape [OF e3] by auto
  have d4: "v_obstacle_distance_m v4 = v_obstacle_distance_m v3"
    using blade_load_shape [OF e4] by auto
  have d5: "v_obstacle_distance_m v5 = v_obstacle_distance_m v4"
    by (simp add: v5_def fuel_burn_shape)
  have d6: "v_obstacle_distance_m v6 = v_obstacle_distance_m v5"
    using ground_moisture_shape [OF e6] by auto
  have d7: "v_obstacle_distance_m v7 = v_obstacle_distance_m v6"
    using visibility_drift_shape [OF e7] by auto
  have d8: "v_obstacle_distance_m v8 = v_obstacle_distance_m v7"
    using gnss_quality_shape [OF e8] by auto
  have d10: "v_obstacle_distance_m v10 = v_obstacle_distance_m v9"
    using operator_behaviour_shape [OF e10] by auto
  have start: "v_obstacle_distance_m v8 = v_obstacle_distance_m v"
    by (simp add: d8 d7 d6 d5 d4 d3 d2 d1)
  have "v_obstacle_distance_m (fst (evolve R tk v g))
          = v_obstacle_distance_m (fst (obstacles R v8 g8))"
    by (simp add: ev d10 e9)
  with start show ?thesis by blast
qed

lemma generate_tick_obstacle:
  "\<exists>h. obstacle_distance_m (generate_tick R fl base_ts s prev)
     = (if fst (rng_random R h) < 6 / 100
        then fst (rng_uniform R 6 35 (snd (rng_random R h)))
        else if (case prev of None \<Rightarrow> 999 | Some p \<Rightarrow> obstacle_distance_m p) + 3 > 80
        then 999
        else (case prev of None \<Rightarrow> 999 | Some p \<Rightarrow> obstacle_distance_m p) + 3)"
proof -
  let ?v = "case prev of None \<Rightarrow> cold_start | Some p \<Rightarrow> load_prev p"
  have d0: "v_obstacle_distance_m ?v
              = (case prev of None \<Rightarrow> 999 | Some p \<Rightarrow> obstacle_distance_m p)"
    by (cases prev) (simp_all add: cold_start_def load_prev_def)
  obtain w h where w: "v_obstacle_distance_m w = v_obstacle_distance_m ?v"
    and ev: "v_obstacle_distance_m
               (fst (evolve R (ss_tick s + 1) ?v (default_rng R (seed_of fl base_ts))))
             = v_obstacle_distance_m (fst (obstacles R w h))"
    using evolve_obstacle [of ?v R "ss_tick s + 1" "default_rng R (seed_of fl base_ts)"]
    by blast
  have row: "obstacle_distance_m (generate_tick R fl base_ts s prev)
               = v_obstacle_distance_m (fst (obstacles R w h))"
    unfolding generate_tick_evolve by (simp add: compute_risks_def Let_def ev)
  have "obstacle_distance_m (generate_tick R fl base_ts s prev)
     = (if fst (rng_random R h) < 6 / 100
        then fst (rng_uniform R 6 35 (snd (rng_random R h)))
        else if v_obstacle_distance_m ?v + 3 > 80 then 999
        else v_obstacle_distance_m ?v + 3)"
    unfolding row
    by (cases "fst (rng_random R h) < 6 / 100") (simp_all add: obstacles_spawn obstacles_relax w)
  then show ?thesis unfolding d0 by blast
qed

lemma obstacle_step:
  assumes u: "uniform_in_range R"
    and p: "case prev of None \<Rightarrow> True | Some q \<Rightarrow> obstacle_ok (obstacle_distance_m q)"
  shows "obstacle_ok (obstacle_distance_m (generate_tick R fl base_ts s prev))"
proof -
  let ?d = "case prev of None \<Rightarrow> 999 | Some q \<Rightarrow> obstacle_distance_m q"
  have start: "obstacle_ok ?d"
    using p by (cases prev) (simp_all add: obstacle_ok_def)
  obtain h where row: "obstacle_distance_m (generate_tick R fl base_ts s prev)
     = (if fst (rng_random R h) < 6 / 100
        then fst (rng_uniform R 6 35 (snd (rng_random R h)))
        else if ?d + 3 > 80 then 999 else ?d + 3)"
    using generate_tick_obstacle [of R fl base_ts s prev] by blast
  have "(6::real) \<le> 35" by simp
  with u have draw: "6 \<le> fst (rng_uniform R 6 35 (snd (rng_random R h)))
      \<and> fst (rng_uniform R 6 35 (snd (rng_random R h))) \<le> 35"
    unfolding uniform_in_range_def by blast
  show ?thesis
    unfolding row using draw start by (auto simp: obstacle_ok_def)
qed

lemma set_lastn: "set (lastn n xs) \<subseteq> set xs"
  by (simp add: lastn_def set_drop_subset)

lemma simulation_step_obstacles:
  assumes u: "uniform_in_range R"
    and inv: "\<forall>r \<in> set (ss_history s). obstacle_ok (obstacle_distance_m r)"
  shows "\<forall>r \<in> set (ss_history (simulation_step R fl fmt c s)).
           obstacle_ok (obstacle_distance_m r)"
proof (cases "gate_open fl c s")
  case False
  then show ?thesis using inv by (simp add: simulation_step_closed)
next
  case True
  let ?prev = "if ss_history s \<noteq> [] then Some (last (ss_history s)) else None"
  have "case ?prev of None \<Rightarrow> True | Some q \<Rightarrow> obstacle_ok (obstacle_distance_m q)"
    using inv by simp
  from obstacle_step [OF u this]
  have new: "obstacle_ok (obstacle_distance_m (generate_tick R fl (t_base c) s ?prev))" .
  show ?thesis
    unfolding simulation_step_open(1) [OF True]
    using inv new set_lastn [of 600 "ss_history s @ [generate_tick R fl (t_base c) s ?prev]"]
    by auto
qed

lemma drive_obstacles:
  "uniform_in_range R \<Longrightarrow>
   \<forall>r \<in> set (ss_history s). obstacle_ok (obstacle_distance_m r) \<Longrightarrow>
   \<forall>r \<in> set (ss_history (drive R fl fmt cs s)). obstacle_ok (obstacle_distance_m r)"
proof (induction cs arbitrary: s)
  case Nil
  then show ?case by simp
next
  case (Cons c cs)
  from simulation_step_obstacles [OF Cons.prems(1) Cons.prems(2)]
  have "\<forall>r \<in> set (ss_history (simulation_step R fl fmt c s)).
          obstacle_ok (obstacle_distance_m r)" .
  from Cons.IH [OF Cons.prems(1) this] show ?case by simp
qed


text \<open>
  Claim C10. In every row the generator produces, the obstacle distance is in [6, 80]
  or is the sentinel 999, never strictly between 80 and 999 and never above 999. The
  obstacle block either spawns an obstacle, at the distance drawn by
  \<^verbatim>\<open>uniform(6, 35)\<close> and so in [6, 35], or relaxes: it adds 3 to the distance it finds and
  resets it to 999 once that exceeds 80; a cold start begins at 999. The distance of the
  row generated from a previous row is the result of that block on the previous row's
  distance.
  The invariant holds for a cold start, for a step from any row that satisfies it, and
  for every row of the history after any run of the simulation step from a session
  whose rows satisfy it, such as a fresh one in which Start was pressed. The draw of
  \<^verbatim>\<open>uniform(low, high)\<close> is taken to lie between its bounds.
\<close>

theorem obstacle_distance_sentinel:
  "v_obstacle_distance_m cold_start = 999
   \<and> (fst (rng_random R g) < 6 / 100 \<longrightarrow>
        v_obstacle_distance_m (fst (obstacles R v g))
          = fst (rng_uniform R 6 35 (snd (rng_random R g))))
   \<and> (\<not> fst (rng_random R g) < 6 / 100 \<longrightarrow>
        v_obstacle_distance_m (fst (obstacles R v g))
          = (if v_obstacle_distance_m v + 3 > 80 then 999 else v_obstacle_distance_m v + 3))
   \<and> (\<exists>h. obstacle_distance_m (generate_tick R fl base_ts s (Some q))
         = (if fst (rng_random R h) < 6 / 100
            then fst (rng_uniform R 6 35 (snd (rng_random R h)))
            else if obstacle_distance_m q + 3 > 80 then 999
            else obstacle_distance_m q + 3))
   \<and> (uniform_in_range R \<longrightarrow>
        6 \<le> fst (rng_uniform R 6 35 g) \<and> fst (rng_uniform R 6 35 g) \<le> 35
        \<and> obstacle_ok (obstacle_distance_m (generate_tick R fl base_ts s None))
        \<and> (obstacle_ok (obstacle_distance_m p) \<longrightarrow>
             obstacle_ok (obstacle_distance_m (generate_tick R fl base_ts s (Some p))))
        \<and> ((\<forall>r \<in> set (ss_history s). obstacle_ok (obstacle_distance_m r)) \<longrightarrow>
             (\<forall>r \<in> set (ss_history (drive R fl fmt cs s)).
                ((6 \<le> obstacle_distance_m r \<and> obstacle_distance_m r \<le> 80)
                 \<or> obstacle_distance_m r = 999)
                \<and> \<not> (80 < obstacle_distance_m r \<and> obstacle_distance_m r < 999)
                \<and> obstacle_distance_m r \<le> 999))
        \<and> (\<forall>r \<in> set (ss_history
                        (drive R fl fmt cs (start_simulation t1 t2 (init_state now)))).
              obstacle_ok (obstacle_distance_m r)))"
proof -
  have cold: "v_obstacle_distance_m cold_start = 999"
    by (simp add: cold_start_def)
  have spawn: "fst (rng_random R g) < 6 / 100 \<longrightarrow>
        v_obstacle_distance_m (fst (obstacles R v g))
          = fst (rng_uniform R 6 35 (snd (rng_random R g)))"
    by (simp add: obstacles_spawn)
  have relax: "\<not> fst (rng_random R g) < 6 / 100 \<longrightarrow>
        v_obstacle_distance_m (fst (obstacles R v g))
          = (if v_obstacle_distance_m v + 3 > 80 then 999 else v_obstacle_distance_m v + 3)"
    using obstacles_relax [of R g v] by blast
  have row: "\<exists>h. obstacle_distance_m (generate_tick R fl base_ts s (Some q))
         = (if fst (rng_random R h) < 6 / 100
            then fst (rng_uniform R 6 35 (snd (rng_random R h)))
            else if obstacle_distance_m q + 3 > 80 then 999
            else obstacle_distance_m q + 3)"
    using generate_tick_obstacle [of R fl base_ts s "Some q"] by (simp only: option.case)
  have inv: "uniform_in_range R \<longrightarrow>
        6 \<le> fst (rng_uniform R 6 35 g) \<and> fst (rng_uniform R 6 35 g) \<le> 35
        \<and> obstacle_ok (obstacle_distance_m (generate_tick R fl base_ts s None))
        \<and> (obstacle_ok (obstacle_distance_m p) \<longrightarrow>
             obstacle_ok (obstacle_distance_m (generate_tick R fl base_ts s (Some p))))
        \<and> ((\<forall>r \<in> set (ss_history s). obstacle_ok (obstacle_distance_m r)) \<longrightarrow>
             (\<forall>r \<in> set (ss_history (drive R fl fmt cs s)).
                ((6 \<le> obstacle_distance_m r \<and> obstacle_distance_m r \<le> 80)
                 \<or> obstacle_distance_m r = 999)
                \<and> \<not> (80 < obstacle_distance_m r \<and> obstacle_distance_m r < 999)
                \<and> obstacle_distance_m r \<le> 999))
        \<and> (\<forall>r \<in> set (ss_history
                        (drive R fl fmt cs (start_simulation t1 t2 (init_state now)))).
              obstacle_ok (obstacle_distance_m r))"
  proof
    assume u: "uniform_in_range R"
    have "(6::real) \<le> 35" by simp
    with u have draw: "6 \<le> fst (rng_uniform R 6 35 g) \<and> fst (rng_uniform R 6 35 g) \<le> 35"
      unfolding uniform_in_range_def by blast
    have first: "obstacle_ok (obstacle_distance_m (generate_tick R fl base_ts s None))"
      by (rule obstacle_step [OF u]) simp
    have next_row: "obstacle_ok (obstacle_distance_m p) \<longrightarrow>
          obstacle_ok (obstacle_distance_m (generate_tick R fl base_ts s (Some p)))"
      by (auto intro: obstacle_step [OF u])
    have run: "(\<forall>r \<in> set (ss_history s). obstacle_ok (obstacle_distance_m r)) \<longrightarrow>
             (\<forall>r \<in> set (ss_history (drive R fl fmt cs s)).
                ((6 \<le> obstacle_distance_m r \<and> obstacle_distance_m r \<le> 80)
                 \<or> obstacle_distance_m r = 999)
                \<and> \<not> (80 < obstacle_distance_m r \<and> obstacle_distance_m r < 999)
                \<and> obstacle_distance_m r \<le> 999)"
    proof
      assume "\<forall>r \<in> set (ss_history s). obstacle_ok (obstacle_distance_m r)"
      from drive_obstacles [OF u this, of fl fmt cs]
      show "\<forall>r \<in> set (ss_history (drive R fl fmt cs s)).
                ((6 \<le> obstacle_distance_m r \<and> obstacle_distance_m r \<le> 80)
                 \<or> obstacle_distance_m r = 999)
                \<and> \<not> (80 < obstacle_distance_m r \<and> obstacle_distance_m r < 999)
                \<and> obstacle_distance_m r \<le> 999"
        by (auto simp: obstacle_ok_def)
    qed
    have fresh: "\<forall>r \<in> set (ss_history
                        (drive R fl fmt cs (start_simulation t1 t2 (init_state now)))).
              obstacle_ok (obstacle_distance_m r)"
      by (rule drive_obstacles [OF u])
        (simp add: start_simulation_def Let_def log_audit_frame init_state_def)
    from draw first next_row run fresh
    show "6 \<le> fst (rng_uniform R 6 35 g) \<and> fst (rng_uniform R 6 35 g) \<le> 35
        \<and> obstacle_ok (obstacle_distance_m (generate_tick R fl base_ts s None))
        \<and> (obstacle_ok (obstacle_distance_m p) \<longrightarrow>
             obstacle_ok (obstacle_distance_m (generate_tick R fl base_ts s (Some p))))
        \<and> ((\<forall>r \<in> set (ss_history s). obstacle_ok (obstacle_distance_m r)) \<longrightarrow>
             (\<forall>r \<in> set (ss_history (drive R fl fmt cs s)).
                ((6 \<le> obstacle_distance_m r \<and> obstacle_distance_m r \<le> 80)
                 \<or> obstacle_distance_m r = 999)
                \<and> \<not> (80 < obstacle_distance_m r \<and> obstacle_distance_m r < 999)
                \<and> obstacle_distance_m r \<le> 999))
        \<and> (\<forall>r \<in> set (ss_history
                        (drive R fl fmt cs (start_simulation t1 t2 (init_state now)))).
              obstacle_ok (obstacle_distance_m r))"
      by blast
  qed
  from cold spawn relax row inv show ?thesis by blast
qed


theorem obstacle_distance_sentinel_witness:
  "v_obstacle_distance_m (fst (obstacles spawning_rng cold_start 0)) = 41 / 2
   \<and> v_obstacle_distance_m
         (fst (obstacles example_rng (cold_start\<lparr>v_obstacle_distance_m := 20\<rparr>) 0)) = 23
   \<and> obstacle_distance_m
         (generate_tick spawning_rng no_rounding 0 (init_state 0) (Some default_row)) = 41 / 2
   \<and> obstacle_distance_m
         (generate_tick example_rng no_rounding 0 (init_state 0) (Some default_row)) = 999
   \<and> obstacle_ok (obstacle_distance_m
         (generate_tick spawning_rng no_rounding 0 (init_state 0) None))
   \<and> obstacle_distance_m
         (generate_tick example_rng no_rounding 0 (init_state 0)
            (Some (default_row\<lparr>obstacle_distance_m := 41 / 2\<rparr>))) = 47 / 2
   \<and> obstacle_distance_m
         (generate_tick example_rng no_rounding 0 (init_state 0)
            (Some (default_row\<lparr>obstacle_distance_m := 79\<rparr>))) = 999
   \<and> obstacle_ok (obstacle_distance_m
         (generate_tick spawning_rng no_rounding 0 (init_state 0)
            (Some (default_row\<lparr>obstacle_distance_m := 79\<rparr>))))
   \<and> ss_history (drive spawning_rng no_rounding (\<lambda>d x. []) [clock_at 1]
         ((started_at 0)\<lparr>ss_history := [default_row]\<rparr>))
       = [default_row,
          generate_tick spawning_rng no_rounding 1 ((started_at 0)\<lparr>ss_history := [default_row]\<rparr>)
            (Some default_row)]
   \<and> obstacle_distance_m
         (generate_tick spawning_rng no_rounding 1 ((started_at 0)\<lparr>ss_history := [default_row]\<rparr>)
            (Some default_row)) \<le> 999"
proof -
  let ?s = "(started_at 0)\<lparr>ss_history := [default_row]\<rparr>"
  let ?f = "\<lambda>(d::nat) (x::real). []::string"
  have us: "uniform_in_range spawning_rng"
    by (simp add: uniform_in_range_def spawning_rng_def example_rng_def)
  have sp: "\<And>h. rng_random spawning_rng h = (1 / 100, Suc h)"
    "\<And>lo hi h. rng_uniform spawning_rng lo hi h = ((lo + hi) / 2, Suc h)"
    by (simp_all add: spawning_rng_def example_rng_def)
  have ex: "\<And>h. rng_random example_rng h = (1 / 2, Suc h)"
    by (simp add: example_rng_def)
  have b1: "v_obstacle_distance_m (fst (obstacles spawning_rng cold_start 0)) = 41 / 2"
    using obstacle_distance_sentinel [where R = spawning_rng and g = 0 and v = cold_start]
    by (simp add: sp)
  have b2: "v_obstacle_distance_m
         (fst (obstacles example_rng (cold_start\<lparr>v_obstacle_distance_m := 20\<rparr>) 0)) = 23"
    using obstacle_distance_sentinel [where R = example_rng and g = 0
        and v = "cold_start\<lparr>v_obstacle_distance_m := 20\<rparr>"]
    by (simp add: ex)
  have dd: "obstacle_distance_m default_row = 999"
    by (simp add: default_row_def)
  have r1: "obstacle_distance_m
         (generate_tick spawning_rng no_rounding 0 (init_state 0) (Some default_row)) = 41 / 2"
    using obstacle_distance_sentinel [where R = spawning_rng and fl = no_rounding
        and base_ts = 0 and s = "init_state 0" and q = default_row]
    by (auto simp: sp)
  have r2: "obstacle_distance_m
         (generate_tick example_rng no_rounding 0 (init_state 0) (Some default_row)) = 999"
    using obstacle_distance_sentinel [where R = example_rng and fl = no_rounding
        and base_ts = 0 and s = "init_state 0" and q = default_row]
    by (auto simp: ex dd)
  have r0: "obstacle_ok (obstacle_distance_m
         (generate_tick spawning_rng no_rounding 0 (init_state 0) None))"
    using obstacle_distance_sentinel [where R = spawning_rng and fl = no_rounding
        and base_ts = 0 and s = "init_state 0"] us
    by blast
  have r3: "obstacle_distance_m
         (generate_tick example_rng no_rounding 0 (init_state 0)
            (Some (default_row\<lparr>obstacle_distance_m := 41 / 2\<rparr>))) = 47 / 2"
    using obstacle_distance_sentinel [where R = example_rng and fl = no_rounding
        and base_ts = 0 and s = "init_state 0"
        and q = "default_row\<lparr>obstacle_distance_m := 41 / 2\<rparr>"]
    by (auto simp: ex)
  have r4: "obstacle_distance_m
         (generate_tick example_rng no_rounding 0 (init_state 0)
            (Some (default_row\<lparr>obstacle_distance_m := 79\<rparr>))) = 999"
    using obstacle_distance_sentinel [where R = example_rng and fl = no_rounding
        and base_ts = 0 and s = "init_state 0"
        and q = "default_row\<lparr>obstacle_distance_m := 79\<rparr>"]
    by (auto simp: ex)
  have ok79: "obstacle_ok (obstacle_distance_m (default_row\<lparr>obstacle_distance_m := 79\<rparr>))"
    by (simp add: obstacle_ok_def)
  have r5: "obstacle_ok (obstacle_distance_m
         (generate_tick spawning_rng no_rounding 0 (init_state 0)
            (Some (default_row\<lparr>obstacle_distance_m := 79\<rparr>))))"
    using obstacle_distance_sentinel [where R = spawning_rng and fl = no_rounding
        and base_ts = 0 and s = "init_state 0"
        and p = "default_row\<lparr>obstacle_distance_m := 79\<rparr>"] us ok79
    by blast
  have gate: "gate_open no_rounding (clock_at 1) ?s"
    by (simp add: gate_open_def started_at_def start_simulation_def Let_def log_audit_frame
        clock_at_def no_rounding_def DT_SECONDS_def init_state_def)
  have hist: "ss_history (drive spawning_rng no_rounding ?f [clock_at 1] ?s)
       = [default_row,
          generate_tick spawning_rng no_rounding 1 ?s (Some default_row)]"
  proof -
    have tb: "t_base (clock_at 1) = 1" by (simp add: clock_at_def)
    have "ss_history (simulation_step spawning_rng no_rounding ?f (clock_at 1) ?s)
            = [default_row, generate_tick spawning_rng no_rounding 1 ?s (Some default_row)]"
      unfolding simulation_step_open(1) [OF gate] tb by (simp add: lastn_def)
    then show ?thesis by simp
  qed
  have inv0: "\<forall>r \<in> set (ss_history ?s). obstacle_ok (obstacle_distance_m r)"
    by (simp add: obstacle_ok_def default_row_def)
  from obstacle_distance_sentinel [where R = spawning_rng and fl = no_rounding
        and fmt = ?f and cs = "[clock_at 1]" and s = ?s] us inv0
  have "\<forall>r \<in> set (ss_history (drive spawning_rng no_rounding ?f [clock_at 1] ?s)).
          obstacle_distance_m r \<le> 999"
    by blast
  then have run: "obstacle_distance_m
         (generate_tick spawning_rng no_rounding 1 ?s (Some default_row)) \<le> 999"
    unfolding hist by simp
  from b1 b2 r1 r2 r0 r3 r4 r5 hist run show ?thesis by blast
qed

subsection \<open>Telemetry generator: seeds and clock readings\<close>





















end
